theory Spec2Isabelle
  imports Complex_Main "HOL-Library.AList" "HOL-Library.List_Lexorder"
begin

section \<open>Python values\<close>

text \<open>
  A Python \<^verbatim>\<open>str\<close> is a sequence of Unicode code points, so it is modelled as a list of
  natural numbers; \<open>u\<close> embeds an ASCII literal of the source. The bullet U+2022 of
  \<^verbatim>\<open>_structure_text_response\<close> is the code point 8226.
\<close>

type_synonym ustr = "nat list"

definition u :: "string \<Rightarrow> ustr" where
  "u s = map of_char s"

text \<open>The exceptions the modelled code can meet; \<open>ExternalError\<close> is whatever a library
  or the generator raises.\<close>

datatype pyerr = KeyError | IndexError | AttributeError | ValueError | JSONDecodeError | ExternalError

text \<open>JSON values, as \<^verbatim>\<open>json.loads\<close> builds them and as the recommendation dict holds them.
  A dict keeps insertion order, so it is an association list.\<close>

datatype json = JNull | JBool bool | JNum real | JStr ustr | JArr "json list" | JObj "(ustr \<times> json) list"

type_synonym pydict = "(ustr \<times> json) list"

definition dict_item :: "('k \<times> 'v) list \<Rightarrow> 'k \<Rightarrow> pyerr + 'v" where
  \<comment> \<open>\<^verbatim>\<open>d[k]\<close>\<close>
  "dict_item d k = (case map_of d k of None \<Rightarrow> Inl KeyError | Some v \<Rightarrow> Inr v)"

definition dict_get :: "('k \<times> 'v) list \<Rightarrow> 'k \<Rightarrow> 'v \<Rightarrow> 'v" where
  \<comment> \<open>\<^verbatim>\<open>d.get(k, default)\<close>\<close>
  "dict_get d k dflt = (case map_of d k of None \<Rightarrow> dflt | Some v \<Rightarrow> v)"

definition dict_contains :: "('k \<times> 'v) list \<Rightarrow> 'k \<Rightarrow> bool" where
  \<comment> \<open>\<^verbatim>\<open>k in d\<close>\<close>
  "dict_contains d k = (map_of d k \<noteq> None)"

definition dict_set :: "('k \<times> 'v) list \<Rightarrow> 'k \<Rightarrow> 'v \<Rightarrow> ('k \<times> 'v) list" where
  \<comment> \<open>\<^verbatim>\<open>d[k] = v\<close>: an existing key keeps its place, a new key goes last\<close>
  "dict_set d k v = AList.update k v d"

definition py_getitem :: "'a list \<Rightarrow> int \<Rightarrow> pyerr + 'a" where
  \<comment> \<open>\<^verbatim>\<open>xs[i]\<close>; the positions -1, -2, ... are read from the end of the list\<close>
  "py_getitem xs i =
     (if 0 \<le> i \<and> i < int (length xs) then Inr (xs ! nat i)
      else if i < 0 \<and> - int (length xs) \<le> i then Inr (xs ! nat (int (length xs) + i))
      else Inl IndexError)"

definition bind_err :: "pyerr + 'a \<Rightarrow> ('a \<Rightarrow> pyerr + 'b) \<Rightarrow> pyerr + 'b" where
  \<comment> \<open>sequencing: an exception of the first step skips the rest\<close>
  "bind_err m f = (case m of Inl e \<Rightarrow> Inl e | Inr x \<Rightarrow> f x)"

section \<open>The retrieval service (plant\_disease\_rag.py)\<close>

text \<open>A row of the metadata CSV as \<^verbatim>\<open>csv.DictReader\<close> yields it: column name to cell text.\<close>

type_synonym row = "(ustr \<times> ustr) list"

text \<open>The fields a catalog entry and a retrieval result share; \<^verbatim>\<open>text\<close> is spelled
  \<open>text_field\<close>.\<close>

record leaf_info =
  class_name :: ustr
  crop :: ustr
  condition :: ustr
  is_healthy :: bool
  image_path :: ustr
  text_field :: ustr

record retrieval_result = leaf_info +
  score :: real
  metadata_id :: int

text \<open>An inner-product index holds the vectors that were added, in order.\<close>

record 'v faiss_index =
  vectors :: "'v list"

definition ntotal :: "'v faiss_index \<Rightarrow> nat" where
  "ntotal ix = length (vectors ix)"

datatype embedding_model = TfidfVectorizer | SentenceTransformer ustr

text \<open>The reply of the generator's \<^verbatim>\<open>chat\<close>: the keys \<^verbatim>\<open>success\<close>, \<^verbatim>\<open>response\<close>, \<^verbatim>\<open>model\<close>,
  the last two possibly absent.\<close>

record llm_reply =
  success :: bool
  response :: "ustr option"
  model_name :: "ustr option"

type_synonym llm_chat = "ustr \<Rightarrow> ustr option \<Rightarrow> pydict \<Rightarrow> pyerr + llm_reply"

record 'v rag =
  index :: "'v faiss_index option"
  metadata :: "row list"
  model :: "embedding_model option"
  index_type :: ustr
  llm :: "llm_chat option"

text \<open>
  The libraries the service calls are parameters of the model:
  \<^item> \<open>st_encode mid nrm t\<close>: \<^verbatim>\<open>SentenceTransformer(mid).encode([t], normalize_embeddings=nrm,
    convert_to_numpy=True)\<close>, the vector of the one text;
  \<^item> \<open>tfidf_transform t\<close>: the pickled vectorizer's \<^verbatim>\<open>transform([t])\<close>, normalised and densified;
  \<^item> \<open>astype_float32\<close>: numpy's cast;
  \<^item> \<open>faiss_search vs q k\<close>: \<^verbatim>\<open>index.search(q, k)\<close>, the (score, row index) pairs of the one query;
  \<^item> \<open>str_lower\<close>: \<^verbatim>\<open>str.lower\<close>; \<open>fmt_2f\<close>: the format \<^verbatim>\<open>:.2f\<close>; \<open>json_loads\<close>: \<^verbatim>\<open>json.loads\<close>
    on a text that starts with an opening brace, so that a result is an object;
  \<^item> \<open>ci_match c p\<close>: whether the character \<open>c\<close> of a subject matches the character \<open>p\<close> of a
    pattern compiled with \<^verbatim>\<open>re.I\<close>.
\<close>

record 'v externals =
  st_encode :: "ustr \<Rightarrow> bool \<Rightarrow> ustr \<Rightarrow> pyerr + 'v"
  tfidf_transform :: "ustr \<Rightarrow> pyerr + 'v"
  astype_float32 :: "'v \<Rightarrow> 'v"
  faiss_search :: "'v list \<Rightarrow> 'v \<Rightarrow> int \<Rightarrow> pyerr + (real \<times> int) list"
  str_lower :: "ustr \<Rightarrow> ustr"
  fmt_2f :: "real \<Rightarrow> ustr"
  json_loads :: "ustr \<Rightarrow> pyerr + pydict"
  ci_match :: "nat \<Rightarrow> nat \<Rightarrow> bool"

definition MODEL_ID :: ustr where
  "MODEL_ID = u ''sentence-transformers/all-MiniLM-L6-v2''"

definition load_embedding_model :: "ustr \<Rightarrow> bool \<Rightarrow> embedding_model option" where
  \<comment> \<open>\<^verbatim>\<open>_load_embedding_model\<close>: \<open>ok\<close> is false when the load raises or the pickle is missing\<close>
  "load_embedding_model ity ok =
     (if \<not> ok then None
      else if ity = u ''tfidf'' then Some TfidfVectorizer
      else Some (SentenceTransformer MODEL_ID))"

definition query_embedding :: "'v externals \<Rightarrow> 'v rag \<Rightarrow> ustr \<Rightarrow> pyerr + 'v" where
  "query_embedding E s q =
     (if index_type s = u ''tfidf'' then
        (case model s of
           Some TfidfVectorizer \<Rightarrow> bind_err (tfidf_transform E q) (\<lambda>v. Inr (astype_float32 E v))
         | _ \<Rightarrow> Inl AttributeError)
      else
        (case model s of
           Some (SentenceTransformer mid) \<Rightarrow>
             bind_err (st_encode E mid True q) (\<lambda>v. Inr (astype_float32 E v))
         | _ \<Rightarrow> Inl AttributeError))"

definition make_result :: "'v externals \<Rightarrow> row list \<Rightarrow> real \<Rightarrow> int \<Rightarrow> pyerr + retrieval_result" where
  "make_result E md sc idx =
     bind_err (py_getitem md idx) (\<lambda>r.
     bind_err (dict_item r (u ''crop'')) (\<lambda>c.
     bind_err (dict_item r (u ''condition'')) (\<lambda>cnd.
     bind_err (dict_item r (u ''is_healthy'')) (\<lambda>h.
     bind_err (dict_item r (u ''class_name'')) (\<lambda>cn.
       Inr \<lparr> class_name = cn, crop = c, condition = cnd,
             is_healthy = (str_lower E h = u ''true''),
             image_path = dict_get r (u ''image_path'') [],
             text_field = dict_get r (u ''text'') [],
             score = sc, metadata_id = idx \<rparr>)))))"

fun compile_results :: "'v externals \<Rightarrow> row list \<Rightarrow> (real \<times> int) list \<Rightarrow> pyerr + retrieval_result list" where
  "compile_results E md [] = Inr []"
| "compile_results E md ((sc, idx) # hits) =
     (if idx < int (length md) then
        bind_err (make_result E md sc idx) (\<lambda>r.
        bind_err (compile_results E md hits) (\<lambda>rs. Inr (r # rs)))
      else compile_results E md hits)"

definition search_body :: "'v externals \<Rightarrow> 'v rag \<Rightarrow> ustr \<Rightarrow> int \<Rightarrow> pyerr + retrieval_result list" where
  \<comment> \<open>the body of the \<^verbatim>\<open>try\<close> block; reached only with an index loaded\<close>
  "search_body E s q top_k =
     bind_err (query_embedding E s q) (\<lambda>qv.
     bind_err (faiss_search E (vectors (the (index s))) qv top_k) (\<lambda>hits.
       compile_results E (metadata s) hits))"

definition search_similar_diseases :: "'v externals \<Rightarrow> 'v rag \<Rightarrow> ustr \<Rightarrow> int \<Rightarrow> retrieval_result list" where
  "search_similar_diseases E s q top_k =
     (if index s = None \<or> model s = None \<or> metadata s = [] then []
      else (case search_body E s q top_k of Inl e \<Rightarrow> [] | Inr rs \<Rightarrow> rs))"

definition is_service_ready :: "'v rag \<Rightarrow> bool" where
  "is_service_ready s = (index s \<noteq> None \<and> model s \<noteq> None \<and> length (metadata s) > 0)"

subsection \<open>Notions used to state the search properties\<close>

text \<open>A metadata row that has the four columns \<^verbatim>\<open>search_similar_diseases\<close> reads with
  \<^verbatim>\<open>row[...]\<close>.\<close>

definition row_complete :: "row \<Rightarrow> bool" where
  "row_complete r = (dict_contains r (u ''crop'') \<and> dict_contains r (u ''condition'')
     \<and> dict_contains r (u ''is_healthy'') \<and> dict_contains r (u ''class_name''))"

text \<open>The projection of a metadata row that a result dict holds, with the score and the
  index the search paired it with.\<close>

definition project_row :: "'v externals \<Rightarrow> row \<Rightarrow> real \<Rightarrow> int \<Rightarrow> retrieval_result" where
  "project_row E r sc idx =
     \<lparr> class_name = the (map_of r (u ''class_name'')), crop = the (map_of r (u ''crop'')),
       condition = the (map_of r (u ''condition'')),
       is_healthy = (str_lower E (the (map_of r (u ''is_healthy''))) = u ''true''),
       image_path = dict_get r (u ''image_path'') [],
       text_field = dict_get r (u ''text'') [],
       score = sc, metadata_id = idx \<rparr>"

text \<open>Descending by score, a tie going to the smaller row index.\<close>

definition ranks_before :: "real \<times> int \<Rightarrow> real \<times> int \<Rightarrow> bool" where
  "ranks_before a b = (fst a > fst b \<or> (fst a = fst b \<and> snd a \<le> snd b))"

definition hit_of :: "retrieval_result \<Rightarrow> real \<times> int" where
  "hit_of r = (score r, metadata_id r)"

subsection \<open>A small concrete service\<close>

text \<open>Stand-ins for the libraries, used where a property is evaluated on a concrete input:
  ASCII lower-casing, an exhaustive inner-product search that pads missing slots with the
  index -1 as FAISS does, and an encoder that looks at the first letter of a text.\<close>

definition lower_char :: "nat \<Rightarrow> nat" where
  "lower_char c = (if 65 \<le> c \<and> c \<le> 90 then c + 32 else c)"

definition lower_ascii :: "ustr \<Rightarrow> ustr" where
  "lower_ascii s = map lower_char s"

definition ci_ascii :: "nat \<Rightarrow> nat \<Rightarrow> bool" where
  "ci_ascii c p = (lower_char c = lower_char p)"

definition inner_product :: "real list \<Rightarrow> real list \<Rightarrow> real" where
  "inner_product a b = sum_list (map2 (*) a b)"

definition FLT_LOWEST :: real where
  "FLT_LOWEST = - 340282346638528859811704183484516925440"

definition flat_ip_search :: "real list list \<Rightarrow> real list \<Rightarrow> int \<Rightarrow> pyerr + (real \<times> int) list" where
  "flat_ip_search vs q k =
     (if k \<le> 0 then Inl ExternalError
      else let scored = sort_key (\<lambda>h. - fst h) (zip (map (inner_product q) vs) (map int [0..<length vs]));
               top = take (nat k) scored
           in Inr (top @ replicate (nat k - length top) (FLT_LOWEST, - 1)))"

definition last_first_ip_search :: "real list list \<Rightarrow> real list \<Rightarrow> int \<Rightarrow> pyerr + (real \<times> int) list" where
  \<comment> \<open>the same exhaustive search going through the vectors from the last to the first: of
     two vectors with one score the later one is reported first\<close>
  "last_first_ip_search vs q k =
     (if k \<le> 0 then Inl ExternalError
      else let scored = sort_key (\<lambda>h. - fst h)
                          (rev (zip (map (inner_product q) vs) (map int [0..<length vs])));
               top = take (nat k) scored
           in Inr (top @ replicate (nat k - length top) (FLT_LOWEST, - 1)))"

definition first_letter_encode :: "ustr \<Rightarrow> bool \<Rightarrow> ustr \<Rightarrow> pyerr + real list" where
  "first_letter_encode mid nrm t =
     (case t of [] \<Rightarrow> Inl ValueError
      | c # _ \<Rightarrow> Inr (if c = 116 \<or> c = 84 then [1, 0] else [0, 1]))"

definition digit_str :: "nat \<Rightarrow> ustr" where
  "digit_str d = [48 + d mod 10]"

definition two_decimals :: "real \<Rightarrow> ustr" where
  \<comment> \<open>stand-in for \<^verbatim>\<open>:.2f\<close> on scores between 0 and 10\<close>
  "two_decimals x =
     (let n = nat \<lfloor>x * 100 + 1 / 2\<rfloor>
      in digit_str (n div 100) @ [46] @ digit_str (n div 10) @ digit_str n)"

definition braces_only_loads :: "ustr \<Rightarrow> pyerr + pydict" where
  \<comment> \<open>stand-in for \<^verbatim>\<open>json.loads\<close>: knows the empty object and two objects with a single key\<close>
  "braces_only_loads t =
     (if t = u ''{}'' then Inr []
      else if t = u ''{\"urgency\": \"high\"}'' then Inr [(u ''urgency'', JStr (u ''high''))]
      else if t = u ''{\"recommendations\": []}'' then Inr [(u ''recommendations'', JArr [])]
      else Inl JSONDecodeError)"

definition demo_externals :: "real list externals" where
  "demo_externals =
     \<lparr> st_encode = first_letter_encode, tfidf_transform = (\<lambda>t. Inl ExternalError),
       astype_float32 = (\<lambda>v. v), faiss_search = flat_ip_search,
       str_lower = lower_ascii, fmt_2f = two_decimals, json_loads = braces_only_loads,
       ci_match = ci_ascii \<rparr>"

definition last_first_externals :: "real list externals" where
  \<comment> \<open>the same libraries over the index search that reports equal scores last row first\<close>
  "last_first_externals = demo_externals \<lparr> faiss_search := last_first_ip_search \<rparr>"

definition demo_rows :: "row list" where
  "demo_rows =
     [[(u ''id'', u ''0''), (u ''class_name'', u ''Tomato - Leaf Mold''), (u ''crop'', u ''Tomato''),
       (u ''condition'', u ''Leaf Mold''), (u ''is_healthy'', u ''False''),
       (u ''image_path'', u ''d/a.jpg''), (u ''text'', u ''t0'')],
      [(u ''id'', u ''1''), (u ''class_name'', u ''Rice - healthy''), (u ''crop'', u ''Rice''),
       (u ''condition'', u ''healthy''), (u ''is_healthy'', u ''True''),
       (u ''image_path'', u ''d/b.jpg''), (u ''text'', u ''t1'')]]"

definition demo_service :: "real list list \<Rightarrow> real list rag" where
  \<comment> \<open>the two rows above over an index holding the given vectors\<close>
  "demo_service vs =
     \<lparr> index = Some \<lparr> vectors = vs \<rparr>, metadata = demo_rows,
       model = Some (SentenceTransformer MODEL_ID), index_type = u ''sbert'', llm = None \<rparr>"

section \<open>String operations of Python\<close>

text \<open>The code points for which \<^verbatim>\<open>str.isspace\<close> holds: what \<^verbatim>\<open>strip()\<close> removes and what
  the pattern \<^verbatim>\<open>\s\<close> matches.\<close>

definition isspace :: "nat \<Rightarrow> bool" where
  "isspace c = (c \<in> {9, 10, 11, 12, 13, 28, 29, 30, 31, 32, 133, 160, 5760, 8232, 8233, 8239, 8287, 12288}
     \<or> (8192 \<le> c \<and> c \<le> 8202))"

definition lstrip_where :: "(nat \<Rightarrow> bool) \<Rightarrow> ustr \<Rightarrow> ustr" where
  "lstrip_where P s = dropWhile P s"

definition rstrip_where :: "(nat \<Rightarrow> bool) \<Rightarrow> ustr \<Rightarrow> ustr" where
  "rstrip_where P s = rev (dropWhile P (rev s))"

definition strip :: "ustr \<Rightarrow> ustr" where
  \<comment> \<open>\<^verbatim>\<open>s.strip()\<close>\<close>
  "strip s = rstrip_where isspace (lstrip_where isspace s)"

definition startswith :: "ustr \<Rightarrow> ustr \<Rightarrow> bool" where
  \<comment> \<open>\<^verbatim>\<open>s.startswith(p)\<close>\<close>
  "startswith s p = (take (length p) s = p)"

fun contains :: "ustr \<Rightarrow> ustr \<Rightarrow> bool" where
  \<comment> \<open>\<^verbatim>\<open>p in s\<close>\<close>
  "contains [] p = (p = [])"
| "contains (c # cs) p = (startswith (c # cs) p \<or> contains cs p)"

fun split_char :: "nat \<Rightarrow> ustr \<Rightarrow> ustr list" where
  \<comment> \<open>\<^verbatim>\<open>s.split(sep)\<close> for a separator of one character\<close>
  "split_char sep [] = [[]]"
| "split_char sep (c # cs) =
     (if c = sep then [] # split_char sep cs
      else (case split_char sep cs of p # ps \<Rightarrow> (c # p) # ps | [] \<Rightarrow> [[c]]))"

definition join_lines :: "ustr list \<Rightarrow> ustr" where
  \<comment> \<open>\<^verbatim>\<open>chr(10).join(xs)\<close>\<close>
  "join_lines xs = (case xs of [] \<Rightarrow> [] | x # rest \<Rightarrow> foldl (\<lambda>a b. a @ [10] @ b) x rest)"

definition py_or :: "ustr option \<Rightarrow> ustr \<Rightarrow> ustr" where
  \<comment> \<open>\<^verbatim>\<open>a or b\<close> for an optional text: \<^verbatim>\<open>None\<close> and the empty text are falsy\<close>
  "py_or a b = (case a of None \<Rightarrow> b | Some t \<Rightarrow> if t = [] then b else t)"

section \<open>The recommendation synthesizer (plant\_disease\_rag.py)\<close>

subsection \<open>Line-based structuring of a free-text reply\<close>

datatype section_name = Recommendations | Preventive_measures

record structuring =
  recommendations :: "ustr list"
  preventive_measures :: "ustr list"
  fertilizer_advice :: ustr
  urgency :: ustr
  current_section :: "section_name option"

definition any_keyword :: "'v externals \<Rightarrow> string list \<Rightarrow> ustr \<Rightarrow> bool" where
  \<comment> \<open>\<^verbatim>\<open>any(keyword in line.lower() for keyword in kws)\<close>\<close>
  "any_keyword E kws line = list_ex (\<lambda>kw. contains (str_lower E line) (u kw)) kws"

definition is_bullet :: "ustr \<Rightarrow> bool" where
  "is_bullet line = (startswith line [45] \<or> startswith line [8226] \<or> startswith line [42])"

definition clean_bullet :: "ustr \<Rightarrow> ustr" where
  \<comment> \<open>\<^verbatim>\<open>line.lstrip('- \<bullet>*').strip()\<close>, the set being hyphen, space, bullet, asterisk\<close>
  "clean_bullet line = strip (lstrip_where (\<lambda>c. c \<in> {45, 32, 8226, 42}) line)"

definition structure_line :: "'v externals \<Rightarrow> structuring \<Rightarrow> ustr \<Rightarrow> structuring" where
  \<comment> \<open>one pass of the loop over the lines\<close>
  "structure_line E st raw =
     (let line = strip raw in
      if line = [] then st
      else if any_keyword E [''treatment'', ''recommend'', ''apply''] line
        then st\<lparr>current_section := Some Recommendations\<rparr>
      else if any_keyword E [''prevent'', ''avoid'', ''maintain''] line
        then st\<lparr>current_section := Some Preventive_measures\<rparr>
      else if any_keyword E [''fertilizer'', ''nutrient'', ''npk''] line
        then st\<lparr>fertilizer_advice := line, current_section := None\<rparr>
      else if any_keyword E [''urgent'', ''immediate'', ''critical''] line
        then st\<lparr>urgency := u ''high'', current_section := None\<rparr>
      else if is_bullet line then
        (case current_section st of
           Some Recommendations \<Rightarrow> st\<lparr>recommendations := recommendations st @ [clean_bullet line]\<rparr>
         | Some Preventive_measures \<Rightarrow> st\<lparr>preventive_measures := preventive_measures st @ [clean_bullet line]\<rparr>
         | None \<Rightarrow> st)
      else st)"

definition initial_structuring :: structuring where
  "initial_structuring =
     \<lparr> recommendations = [], preventive_measures = [],
       fertilizer_advice = u ''Apply balanced fertilizer as recommended'',
       urgency = u ''medium'', current_section = None \<rparr>"

definition structure_lines :: "'v externals \<Rightarrow> ustr \<Rightarrow> structuring" where
  "structure_lines E text_response =
     foldl (structure_line E) initial_structuring (split_char 10 text_response)"

definition default_recommendations :: "ustr list" where
  "default_recommendations = [u ''Follow agricultural best practices for the identified condition'']"

definition default_preventive_measures :: "ustr list" where
  "default_preventive_measures = [u ''Maintain good plant hygiene'', u ''Monitor plants regularly'']"

definition structure_text_response :: "'v externals \<Rightarrow> ustr \<Rightarrow> pydict" where
  "structure_text_response E text_response =
     (let st = structure_lines E text_response;
          rs = (if recommendations st = [] then default_recommendations else recommendations st);
          ps = (if preventive_measures st = [] then default_preventive_measures else preventive_measures st)
      in [(u ''primary_diagnosis'', JStr (u ''AI analysis completed'')),
          (u ''confidence'', JStr (u ''medium'')),
          (u ''recommendations'', JArr (map JStr (take 6 rs))),
          (u ''preventive_measures'', JArr (map JStr (take 6 ps))),
          (u ''fertilizer_advice'', JStr (fertilizer_advice st)),
          (u ''urgency'', JStr (urgency st)),
          (u ''llm_analysis'', JStr text_response)])"

subsection \<open>Structured parsing of the reply\<close>

definition json_block :: "ustr \<Rightarrow> ustr option" where
  \<comment> \<open>\<^verbatim>\<open>re.search(r'\{.*\}', s, re.DOTALL)\<close>: from the first opening brace to the last
     closing brace after it\<close>
  "json_block s =
     (let t = dropWhile (\<lambda>c. c \<noteq> 123) s
      in if 125 \<in> set t then Some (rev (dropWhile (\<lambda>c. c \<noteq> 125) (rev t))) else None)"

definition parsed_json :: "'v externals \<Rightarrow> ustr \<Rightarrow> pydict option" where
  \<comment> \<open>the object the \<^verbatim>\<open>try\<close> block obtains; \<open>None\<close> sends the reply to the line-based path\<close>
  "parsed_json E s =
     (case json_block s of
        None \<Rightarrow> None
      | Some blk \<Rightarrow> (case json_loads E blk of Inl e \<Rightarrow> None | Inr d \<Rightarrow> Some d))"

definition required_fields :: "ustr list" where
  "required_fields = [u ''primary_diagnosis'', u ''confidence'', u ''recommendations'',
     u ''preventive_measures'', u ''fertilizer_advice'']"

definition NOT_SPECIFIED :: ustr where
  "NOT_SPECIFIED = u ''Not specified in LLM response''"

definition set_default :: "pydict \<Rightarrow> ustr \<Rightarrow> json \<Rightarrow> pydict" where
  \<comment> \<open>\<^verbatim>\<open>if k not in d: d[k] = v\<close>\<close>
  "set_default d k v = (if dict_contains d k then d else dict_set d k v)"

definition fill_missing :: "pydict \<Rightarrow> ustr \<Rightarrow> pydict" where
  "fill_missing d llm_response =
     set_default
       (set_default
          (foldl (\<lambda>acc field. set_default acc field (JStr NOT_SPECIFIED)) d required_fields)
          (u ''urgency'') (JStr (u ''medium'')))
       (u ''llm_analysis'') (JStr llm_response)"

definition parse_llm_recommendations :: "'v externals \<Rightarrow> ustr \<Rightarrow> pydict" where
  "parse_llm_recommendations E llm_response =
     (case parsed_json E llm_response of
        Some d \<Rightarrow> fill_missing d llm_response
      | None \<Rightarrow> structure_text_response E llm_response)"

subsection \<open>Fallback records\<close>

definition similar_cases :: "'v externals \<Rightarrow> retrieval_result list \<Rightarrow> json" where
  "similar_cases E disease_matches =
     JArr (map (\<lambda>m. JObj [(u ''crop'', JStr (crop m)), (u ''condition'', JStr (condition m)),
                           (u ''similarity'', JStr (fmt_2f E (score m)))])
               (take 3 disease_matches))"

definition no_match_fallback :: pydict where
  \<comment> \<open>the literal returned when there is no evidence and no usable reply\<close>
  "no_match_fallback =
     [(u ''primary_diagnosis'', JStr (u ''Unable to identify specific disease'')),
      (u ''confidence'', JStr (u ''low'')),
      (u ''recommendations'', JArr [JStr (u ''Consult with a local agricultural expert'')]),
      (u ''preventive_measures'', JArr [JStr (u ''Maintain good crop hygiene''), JStr (u ''Ensure proper spacing'')]),
      (u ''fertilizer_advice'', JStr (u ''Use balanced NPK fertilizer as per soil test'')),
      (u ''urgency'', JStr (u ''medium'')),
      (u ''llm_analysis'', JStr (u ''LLM analysis not available''))]"

definition get_fallback_recommendations :: "'v externals \<Rightarrow> ustr \<Rightarrow> ustr \<Rightarrow> retrieval_result list \<Rightarrow> pydict" where
  "get_fallback_recommendations E c cnd disease_matches =
     [(u ''primary_diagnosis'', JStr (c @ u '' - '' @ cnd)),
      (u ''confidence'', JStr (u ''medium'')),
      (u ''similar_cases'', similar_cases E disease_matches),
      (u ''recommendations'', JArr [JStr (u ''Remove affected plant parts''),
         JStr (u ''Apply appropriate treatment based on disease type''),
         JStr (u ''Improve environmental conditions''),
         JStr (u ''Monitor plant closely for changes'')]),
      (u ''preventive_measures'', JArr [JStr (u ''Ensure proper plant spacing''),
         JStr (u ''Maintain good air circulation''),
         JStr (u ''Avoid overhead watering''),
         JStr (u ''Practice crop rotation'')]),
      (u ''fertilizer_advice'', JStr (u ''Apply balanced fertilizer suitable for '' @ c)),
      (u ''urgency'', JStr (u ''medium'')),
      (u ''llm_analysis'', JStr (u ''LLM analysis not available - using fallback recommendations''))]"

subsection \<open>Prompts\<close>

definition no_match_prompt :: "ustr \<Rightarrow> ustr" where
  "no_match_prompt crop_or_unknown =
     concat
      [u ''\<newline>'',
       u ''                No specific disease matches found for the plant image analysis.\<newline>'',
       u ''                Crop type: '',
       crop_or_unknown,
       u ''\<newline>'',
       u ''                \<newline>'',
       u ''                Please provide general plant health recommendations in JSON format:\<newline>'',
       u ''                {\<newline>'',
       u ''                    \"primary_diagnosis\": \"Unable to identify specific disease\",\<newline>'',
       u ''                    \"confidence\": \"low\",\<newline>'',
       u ''                    \"recommendations\": [\"list of 3-5 treatment steps\"],\<newline>'',
       u ''                    \"preventive_measures\": [\"list of 3-5 prevention strategies\"],\<newline>'',
       u ''                    \"fertilizer_advice\": \"specific fertilizer recommendation\",\<newline>'',
       u ''                    \"urgency\": \"low/medium/high\"\<newline>'',
       u ''                }\<newline>'',
       u ''                '']"

definition maintenance_prompt :: "ustr \<Rightarrow> ustr \<Rightarrow> ustr" where
  "maintenance_prompt c cases =
     concat
      [u ''\<newline>'',
       u ''            Analysis shows a healthy '',
       c,
       u '' leaf with high confidence.\<newline>'',
       u ''            Similar healthy cases found:\<newline>'',
       u ''            '',
       cases,
       u ''\<newline>'',
       u ''            \<newline>'',
       u ''            Please provide maintenance recommendations in JSON format:\<newline>'',
       u ''            {\<newline>'',
       u ''                \"primary_diagnosis\": \"Healthy '',
       c,
       u '' leaf\",\<newline>'',
       u ''                \"confidence\": \"high\",\<newline>'',
       u ''                \"recommendations\": [\"list of 3-5 maintenance practices\"],\<newline>'',
       u ''                \"preventive_measures\": [\"list of 3-5 disease prevention strategies\"],\<newline>'',
       u ''                \"fertilizer_advice\": \"specific fertilizer recommendation for healthy '',
       c,
       u ''\",\<newline>'',
       u ''                \"urgency\": \"low\"\<newline>'',
       u ''            }\<newline>'',
       u ''            '']"

definition treatment_prompt :: "ustr \<Rightarrow> ustr \<Rightarrow> ustr \<Rightarrow> ustr \<Rightarrow> ustr" where
  "treatment_prompt c cnd conf cases =
     concat
      [u ''\<newline>'',
       u ''            Plant disease diagnosis based on image analysis and database matching:\<newline>'',
       u ''            \<newline>'',
       u ''            Primary diagnosis: '',
       c,
       u '' - '',
       cnd,
       u ''\<newline>'',
       u ''            Confidence level: '',
       conf,
       u ''\<newline>'',
       u ''            \<newline>'',
       u ''            Similar cases found in database:\<newline>'',
       u ''            '',
       cases,
       u ''\<newline>'',
       u ''            \<newline>'',
       u ''            Please provide comprehensive treatment recommendations in JSON format:\<newline>'',
       u ''            {\<newline>'',
       u ''                \"primary_diagnosis\": \"'',
       c,
       u '' - '',
       cnd,
       u ''\",\<newline>'',
       u ''                \"confidence\": \"'',
       conf,
       u ''\",\<newline>'',
       u ''                \"recommendations\": [\"list of 4-6 specific treatment steps\"],\<newline>'',
       u ''                \"preventive_measures\": [\"list of 4-6 prevention strategies\"],\<newline>'',
       u ''                \"fertilizer_advice\": \"specific fertilizer recommendation for this condition\",\<newline>'',
       u ''                \"urgency\": \"low/medium/high based on disease severity\"\<newline>'',
       u ''            }\<newline>'',
       u ''            \<newline>'',
       u ''            Consider:\<newline>'',
       u ''            - Immediate treatment actions\<newline>'',
       u ''            - Chemical/organic treatment options\<newline>'',
       u ''            - Environmental management\<newline>'',
       u ''            - Timing of treatments\<newline>'',
       u ''            - Safety precautions\<newline>'',
       u ''            - Follow-up monitoring\<newline>'',
       u ''            '']"

definition case_sentence :: "'v externals \<Rightarrow> nat \<Rightarrow> retrieval_result \<Rightarrow> ustr" where
  \<comment> \<open>the sentence of the match at position \<open>i\<close>, which is below 3, so \<open>i+1\<close> is one digit\<close>
  "case_sentence E i m =
     concat [u ''Case '', [49 + i], u '': '', crop m, u '' with '', condition m,
             u '' (similarity: '', fmt_2f E (score m), u '')'']"

definition similar_cases_context :: "'v externals \<Rightarrow> retrieval_result list \<Rightarrow> ustr list" where
  "similar_cases_context E disease_matches =
     map (\<lambda>(i, m). case_sentence E i m) (zip [0..<3] (take 3 disease_matches))"

definition confidence_word :: "retrieval_result \<Rightarrow> ustr" where
  "confidence_word m = (if score m > 0.7 then u ''high'' else u ''medium'')"

definition opt_json :: "ustr option \<Rightarrow> json" where
  "opt_json a = (case a of None \<Rightarrow> JNull | Some t \<Rightarrow> JStr t)"

subsection \<open>The synthesizer\<close>

definition successful_response :: "pyerr + llm_reply \<Rightarrow> (ustr \<times> llm_reply) option" where
  \<comment> \<open>the reply text that reaches the parser inside the \<^verbatim>\<open>try\<close>: none when \<^verbatim>\<open>chat\<close> raised,
     when \<^verbatim>\<open>success\<close> is falsy, or when the reply lacks \<^verbatim>\<open>response\<close> (a KeyError); each of
     these ends in the code after the \<^verbatim>\<open>try\<close>\<close>
  "successful_response res =
     (case res of
        Inl e \<Rightarrow> None
      | Inr r \<Rightarrow> if success r then (case response r of None \<Rightarrow> None | Some t \<Rightarrow> Some (t, r)) else None)"

definition evidence_prompt :: "'v externals \<Rightarrow> retrieval_result list \<Rightarrow> retrieval_result \<Rightarrow> ustr \<Rightarrow> ustr" where
  "evidence_prompt E disease_matches primary_match c =
     (let cases = join_lines (similar_cases_context E disease_matches)
      in if is_healthy primary_match then maintenance_prompt c cases
         else treatment_prompt c (condition primary_match) (confidence_word primary_match) cases)"

definition get_treatment_recommendations ::
  "'v externals \<Rightarrow> 'v rag \<Rightarrow> retrieval_result list \<Rightarrow> ustr option \<Rightarrow> ustr option \<Rightarrow> pydict" where
  "get_treatment_recommendations E s disease_matches crop_type user_id =
     (case disease_matches of
        [] \<Rightarrow>
          (case llm s of
             None \<Rightarrow> no_match_fallback
           | Some chat \<Rightarrow>
               (case successful_response
                       (chat (no_match_prompt (py_or crop_type (u ''Unknown''))) user_id
                          [(u ''task'', JStr (u ''general_plant_health'')), (u ''crop'', opt_json crop_type)]) of
                  Some (t, r) \<Rightarrow> parse_llm_recommendations E t
                | None \<Rightarrow> no_match_fallback))
      | primary_match # _ \<Rightarrow>
          (let c = py_or crop_type (crop primary_match);
               cnd = condition primary_match
           in case llm s of
                None \<Rightarrow> get_fallback_recommendations E c cnd disease_matches
              | Some chat \<Rightarrow>
                  (case successful_response
                          (chat (evidence_prompt E disease_matches primary_match c) user_id
                             [(u ''domain'', JStr (u ''agriculture'')), (u ''task'', JStr (u ''disease_treatment'')),
                              (u ''crop'', JStr c), (u ''condition'', JStr cnd),
                              (u ''healthy'', JBool (is_healthy primary_match))]) of
                     Some (t, r) \<Rightarrow>
                       dict_set
                         (dict_set (parse_llm_recommendations E t) (u ''similar_cases'')
                            (similar_cases E disease_matches))
                         (u ''model_used'')
                         (JStr (case model_name r of None \<Rightarrow> u ''unknown'' | Some m \<Rightarrow> m))
                   | None \<Rightarrow> get_fallback_recommendations E c cnd disease_matches)))"

subsection \<open>Notions used to state the synthesizer's properties\<close>

definition nonempty_json :: "json \<Rightarrow> bool" where
  "nonempty_json v =
     (case v of JNull \<Rightarrow> False | JStr t \<Rightarrow> t \<noteq> [] | JArr xs \<Rightarrow> xs \<noteq> [] | JObj d \<Rightarrow> d \<noteq> [] | _ \<Rightarrow> True)"

definition field_nonempty :: "pydict \<Rightarrow> ustr \<Rightarrow> bool" where
  \<comment> \<open>the key is present and its value is not empty\<close>
  "field_nonempty d k = (case map_of d k of None \<Rightarrow> False | Some v \<Rightarrow> nonempty_json v)"

definition advice_fields :: "ustr list" where
  "advice_fields = [u ''primary_diagnosis'', u ''confidence'', u ''recommendations'',
     u ''preventive_measures'', u ''fertilizer_advice'', u ''urgency'']"

definition generator_reply :: "'v externals \<Rightarrow> 'v rag \<Rightarrow> retrieval_result list \<Rightarrow> ustr option \<Rightarrow> ustr option \<Rightarrow> ustr option" where
  \<comment> \<open>the reply text the synthesizer parses on the given call, if it parses one\<close>
  "generator_reply E s disease_matches crop_type user_id =
     (case llm s of
        None \<Rightarrow> None
      | Some chat \<Rightarrow>
          map_option fst (successful_response
            (case disease_matches of
               [] \<Rightarrow> chat (no_match_prompt (py_or crop_type (u ''Unknown''))) user_id
                       [(u ''task'', JStr (u ''general_plant_health'')), (u ''crop'', opt_json crop_type)]
             | primary_match # _ \<Rightarrow>
                 chat (evidence_prompt E disease_matches primary_match (py_or crop_type (crop primary_match))) user_id
                   [(u ''domain'', JStr (u ''agriculture'')), (u ''task'', JStr (u ''disease_treatment'')),
                    (u ''crop'', JStr (py_or crop_type (crop primary_match))),
                    (u ''condition'', JStr (condition primary_match)),
                    (u ''healthy'', JBool (is_healthy primary_match))])))"

text \<open>Generators for the concrete evaluations: one that raises, one that reports failure,
  one that answers in prose, one that answers with a JSON object, one that answers with
  a JSON object holding an empty list.\<close>

definition raising_chat :: llm_chat where
  "raising_chat p uid ctx = Inl ExternalError"

definition failing_chat :: llm_chat where
  "failing_chat p uid ctx = Inr \<lparr> success = False, response = None, model_name = None \<rparr>"

definition prose_chat :: llm_chat where
  "prose_chat p uid ctx =
     Inr \<lparr> success = True,
           response = Some (u ''Treatment:\<newline>- Apply fungicide weekly\<newline>- Remove spotted leaves''),
           model_name = Some (u ''gemini-2.0-flash'') \<rparr>"

definition json_chat :: llm_chat where
  "json_chat p uid ctx =
     Inr \<lparr> success = True, response = Some (u ''Here: {\"urgency\": \"high\"} ok''),
           model_name = None \<rparr>"

definition empty_list_chat :: llm_chat where
  "empty_list_chat p uid ctx =
     Inr \<lparr> success = True, response = Some (u ''{\"recommendations\": []}''),
           model_name = Some (u ''gemini-2.0-flash'') \<rparr>"

definition demo_match :: retrieval_result where
  "demo_match =
     \<lparr> class_name = u ''Tomato - Leaf Mold'', crop = u ''Tomato'', condition = u ''Leaf Mold'',
       is_healthy = False, image_path = u ''d/a.jpg'', text_field = u ''t0'',
       score = 0.86, metadata_id = 0 \<rparr>"

definition keyword_line :: "'v externals \<Rightarrow> ustr \<Rightarrow> bool" where
  \<comment> \<open>the line holds one of the twelve words the classifier looks for\<close>
  "keyword_line E line =
     any_keyword E [''treatment'', ''recommend'', ''apply'', ''prevent'', ''avoid'', ''maintain'',
                    ''fertilizer'', ''nutrient'', ''npk'', ''urgent'', ''immediate'', ''critical''] line"

section \<open>The corpus indexer (index.py)\<close>

subsection \<open>Folder-name normalisation\<close>

fun collapse_runs :: "(nat \<Rightarrow> bool) \<Rightarrow> bool \<Rightarrow> ustr \<Rightarrow> ustr" where
  \<comment> \<open>\<^verbatim>\<open>re.sub(r'[...]+', ' ', s)\<close>: each maximal run of characters of the class becomes one
     space; the flag says that the previous character was of the class\<close>
  "collapse_runs P in_run [] = []"
| "collapse_runs P in_run (c # cs) =
     (if P c then (if in_run then collapse_runs P True cs else 32 # collapse_runs P True cs)
      else c # collapse_runs P False cs)"

definition norm_text :: "ustr \<Rightarrow> ustr" where
  \<comment> \<open>\<^verbatim>\<open>_norm\<close>\<close>
  "norm_text s =
     strip (collapse_runs isspace False
       (collapse_runs (\<lambda>c. c \<in> {95, 40, 41, 44, 47}) False
          (map (\<lambda>c. if c = 45 then 32 else c) s)))"

definition CROP_ALIASES :: "(ustr \<times> ustr) list" where
  "CROP_ALIASES = [(u ''pepper, bell'', u ''Bell pepper''), (u ''corn (maize)'', u ''Corn'')]"

definition DISEASE_DEFAULT_CROP :: "(ustr \<times> ustr) list" where
  "DISEASE_DEFAULT_CROP = [(u ''brown spot'', u ''Rice''), (u ''leaf smut'', u ''Rice''),
     (u ''bacterial leaf blight'', u ''Rice'')]"

definition canon_crop :: "'v externals \<Rightarrow> ustr \<Rightarrow> ustr" where
  \<comment> \<open>\<^verbatim>\<open>_canon_crop\<close>\<close>
  "canon_crop E c = dict_get CROP_ALIASES (str_lower E c) c"

fun split_first :: "ustr \<Rightarrow> ustr \<Rightarrow> ustr \<times> ustr" where
  \<comment> \<open>\<^verbatim>\<open>s.split(sep, 1)\<close> for a separator that occurs in \<open>s\<close>: the text before its first
     occurrence and the text after it\<close>
  "split_first sep [] = ([], [])"
| "split_first sep (c # cs) =
     (if startswith (c # cs) sep then ([], drop (length sep) (c # cs))
      else (case split_first sep cs of (a, b) \<Rightarrow> (c # a, b)))"

definition is_sep :: "nat \<Rightarrow> bool" where
  \<comment> \<open>the class \<^verbatim>\<open>[_\s-]\<close>\<close>
  "is_sep c = (c = 95 \<or> c = 45 \<or> isspace c)"

definition literal_at :: "(nat \<Rightarrow> nat \<Rightarrow> bool) \<Rightarrow> ustr \<Rightarrow> ustr \<Rightarrow> bool" where
  \<comment> \<open>the subject starts with the literal, its characters compared by \<open>eq\<close>\<close>
  "literal_at eq s lit = (length lit \<le> length s \<and> list_all2 eq (take (length lit) s) lit)"

definition banana_prefix :: "(nat \<Rightarrow> nat \<Rightarrow> bool) \<Rightarrow> ustr \<Rightarrow> nat option" where
  \<comment> \<open>\<^verbatim>\<open>^(resized_)?banana[_-]\<close>: the length of the match\<close>
  "banana_prefix eq s =
     (if literal_at eq s (u ''resized_banana'') \<and> (case drop 14 s of [] \<Rightarrow> False | c # _ \<Rightarrow> c = 95 \<or> c = 45)
        then Some 15
      else if literal_at eq s (u ''banana'') \<and> (case drop 6 s of [] \<Rightarrow> False | c # _ \<Rightarrow> c = 95 \<or> c = 45)
        then Some 7
      else None)"

definition dot_plus_end :: "ustr \<Rightarrow> ustr option" where
  \<comment> \<open>\<^verbatim>\<open>(.+)$\<close> matched at the start of \<open>r\<close>: the dot matches no line feed, the dollar matches
     at the end and before a final line feed\<close>
  "dot_plus_end r =
     (let a = takeWhile (\<lambda>c. c \<noteq> 10) r; rest = dropWhile (\<lambda>c. c \<noteq> 10) r
      in if a \<noteq> [] \<and> (rest = [] \<or> rest = [10]) then Some a else None)"

definition good_ill_prefix :: "(nat \<Rightarrow> nat \<Rightarrow> bool) \<Rightarrow> ustr \<Rightarrow> nat option" where
  \<comment> \<open>\<^verbatim>\<open>^(good|ill)[_\s-]+\<close>: the length of the first group, when the pattern matches\<close>
  "good_ill_prefix eq s =
     (if literal_at eq s (u ''good'') \<and> (case drop 4 s of [] \<Rightarrow> False | c # _ \<Rightarrow> is_sep c) then Some 4
      else if literal_at eq s (u ''ill'') \<and> (case drop 3 s of [] \<Rightarrow> False | c # _ \<Rightarrow> is_sep c) then Some 3
      else None)"

fun seps_then_rest :: "ustr \<Rightarrow> nat \<Rightarrow> ustr option" where
  \<comment> \<open>\<^verbatim>\<open>[_\s-]+(.+)$\<close> on \<open>r\<close>, the run of separators giving back characters from \<open>j\<close> down to 1\<close>
  "seps_then_rest r 0 = None"
| "seps_then_rest r (Suc j) =
     (case dot_plus_end (drop (Suc j) r) of Some g \<Rightarrow> Some g | None \<Rightarrow> seps_then_rest r j)"

definition good_ill_match :: "'v externals \<Rightarrow> ustr \<Rightarrow> (ustr \<times> ustr) option" where
  \<comment> \<open>\<^verbatim>\<open>re.match(r'^(good|ill)[_\s-]+(.+)$', name, re.I)\<close>: the two groups\<close>
  "good_ill_match E name =
     (case good_ill_prefix (ci_match E) name of
        None \<Rightarrow> None
      | Some n \<Rightarrow>
          (case seps_then_rest (drop n name) (length (takeWhile is_sep (drop n name))) of
             None \<Rightarrow> None
           | Some g \<Rightarrow> Some (take n name, g)))"

definition banana_match :: "'v externals \<Rightarrow> ustr \<Rightarrow> ustr option" where
  \<comment> \<open>\<^verbatim>\<open>re.match(r'^(?:resized_)?banana[_-](.+)$', name, re.I)\<close>: the group\<close>
  "banana_match E name =
     (case banana_prefix (ci_match E) name of None \<Rightarrow> None | Some n \<Rightarrow> dot_plus_end (drop n name))"

definition strip_leaf :: "'v externals \<Rightarrow> ustr \<Rightarrow> ustr" where
  \<comment> \<open>\<^verbatim>\<open>re.sub(r'^[_\s-]*leaf[_\s-]*', '', rest, flags=re.I)\<close>\<close>
  "strip_leaf E rest =
     (let r = dropWhile is_sep rest
      in if literal_at (ci_match E) r (u ''leaf'') then dropWhile is_sep (drop 4 r) else rest)"

definition or_unknown :: "ustr \<Rightarrow> ustr" where
  \<comment> \<open>\<^verbatim>\<open>s or 'unknown'\<close>\<close>
  "or_unknown s = (if s = [] then u ''unknown'' else s)"

definition trim_name :: "ustr \<Rightarrow> ustr" where
  \<comment> \<open>\<^verbatim>\<open>folder_name.strip().rstrip('_')\<close>\<close>
  "trim_name folder_name = rstrip_where (\<lambda>c. c = 95) (strip folder_name)"

definition healthy_words :: "ustr list" where
  "healthy_words = [u ''healthy'', u ''leaf healthy'', u ''good'']"

definition finish_class :: "'v externals \<Rightarrow> ustr \<times> ustr \<Rightarrow> ustr \<times> ustr \<times> bool \<times> ustr" where
  \<comment> \<open>the three lines after the branches of \<^verbatim>\<open>parse_class\<close>\<close>
  "finish_class E cc =
     (let c = canon_crop E (fst cc); cnd = snd cc
      in (c, cnd, str_lower E cnd \<in> set healthy_words, c @ u '' - '' @ cnd))"

definition norm_default_crop :: "'v externals \<Rightarrow> ustr \<Rightarrow> ustr" where
  \<comment> \<open>\<^verbatim>\<open>DISEASE_DEFAULT_CROP.get(condition.lower(), 'Unknown')\<close> with \<^verbatim>\<open>condition = _norm(name)\<close>\<close>
  "norm_default_crop E name = dict_get DISEASE_DEFAULT_CROP (str_lower E (norm_text name)) (u ''Unknown'')"

definition parse_class :: "'v externals \<Rightarrow> ustr \<Rightarrow> ustr \<times> ustr \<times> bool \<times> ustr" where
  "parse_class E folder_name =
     (let name = trim_name folder_name; nlow = str_lower E name
      in finish_class E
        (if contains name (u ''___'') then
           (case split_first (u ''___'') name of (a, b) \<Rightarrow> (canon_crop E (norm_text a), norm_text b))
         else if banana_prefix (=) nlow \<noteq> None then
           (u ''Banana'', (case banana_match E name of Some g \<Rightarrow> norm_text g | None \<Rightarrow> u ''unknown''))
         else if startswith nlow (u ''sugarcane'') then
           (u ''Sugarcane'', or_unknown (norm_text (strip_leaf E (drop 9 name))))
         else if good_ill_prefix (=) nlow \<noteq> None then
           (case good_ill_match E name of
              Some (g1, g2) \<Rightarrow> (canon_crop E (norm_text g2),
                                 if str_lower E g1 = u ''good'' then u ''healthy'' else u ''diseased'')
            | None \<Rightarrow> (u ''Unknown'', u ''diseased''))
         else if 95 \<in> set name then
           (case split_first [95] name of (first, rest) \<Rightarrow> (canon_crop E (norm_text first), norm_text rest))
         else
           (norm_default_crop E name, norm_text name)))"






subsection \<open>Building the metadata rows and the index\<close>

record catalog_entry = leaf_info +
  row_id :: nat

text \<open>What \<^verbatim>\<open>build_docs\<close> reads from the file system: the entries of \<^verbatim>\<open>DATA_DIR\<close>, each with
  its name, whether it is a directory, and the names of what it holds, in the order the
  directory is listed.\<close>

record class_dir =
  dir_name :: ustr
  is_dir :: bool
  listing :: "ustr list"

definition DATA_DIR :: ustr where
  "DATA_DIR = u ''Plant_Disease_Dataset''"

definition IMAGE_SUFFIXES :: "ustr list" where
  "IMAGE_SUFFIXES = [u ''.jpg'', u ''.jpeg'', u ''.png'']"

definition path_suffix :: "ustr \<Rightarrow> ustr" where
  \<comment> \<open>\<^verbatim>\<open>Path.suffix\<close> of a file name: from the last dot, unless that dot is the first or the
     last character\<close>
  "path_suffix name =
     (let after = takeWhile (\<lambda>c. c \<noteq> 46) (rev name)
      in if 46 \<in> set name \<and> after \<noteq> [] \<and> Suc (length after) < length name then 46 # rev after else [])"

definition is_image :: "'v externals \<Rightarrow> ustr \<Rightarrow> bool" where
  \<comment> \<open>matched by \<^verbatim>\<open>glob("*.*")\<close> and not skipped by the suffix test\<close>
  "is_image E n = (46 \<in> set n \<and> str_lower E (path_suffix n) \<in> set IMAGE_SUFFIXES)"

definition descriptive_text :: "ustr \<Rightarrow> ustr \<Rightarrow> ustr \<Rightarrow> bool \<Rightarrow> ustr" where
  "descriptive_text c cnd cn h =
     concat [u ''Crop: '', c, u ''. Condition: '', cnd, u ''. '',
             u ''This is a leaf image labeled '', [39], cn, [39], u ''. '',
             u ''Healthy: '', (if h then u ''yes'' else u ''no''), u ''.'']"

definition make_entry :: "'v externals \<Rightarrow> ustr \<Rightarrow> ustr \<Rightarrow> nat \<Rightarrow> catalog_entry" where
  \<comment> \<open>the dict appended for the image \<open>img\<close> of the class folder \<open>d\<close> when \<open>n\<close> rows exist\<close>
  "make_entry E d img n =
     (case parse_class E d of
        (c, cnd, h, cn) \<Rightarrow>
          \<lparr> class_name = cn, crop = c, condition = cnd, is_healthy = h,
            image_path = DATA_DIR @ [47] @ d @ [47] @ img,
            text_field = descriptive_text c cnd cn h, row_id = n \<rparr>)"

definition class_rows :: "'v externals \<Rightarrow> catalog_entry list \<Rightarrow> class_dir \<Rightarrow> catalog_entry list" where
  \<comment> \<open>the inner loop, over the images of one class folder\<close>
  "class_rows E rows d =
     foldl (\<lambda>acc img. if str_lower E (path_suffix img) \<notin> set IMAGE_SUFFIXES then acc
                        else acc @ [make_entry E (dir_name d) img (length acc)])
       rows (filter (\<lambda>n. 46 \<in> set n) (listing d))"

definition build_docs :: "'v externals \<Rightarrow> class_dir list \<Rightarrow> catalog_entry list" where
  "build_docs E data_dir = foldl (class_rows E) [] (sort_key dir_name (filter is_dir data_dir))"

fun chunks :: "nat \<Rightarrow> 'a list \<Rightarrow> 'a list list" where
  \<comment> \<open>the slices \<^verbatim>\<open>texts[i:i+n]\<close> for \<^verbatim>\<open>i\<close> in \<^verbatim>\<open>range(0, len(texts), n)\<close>, \<open>n\<close> positive\<close>
  "chunks n xs = (if n = 0 \<or> xs = [] then [] else take n xs # chunks n (drop n xs))"

fun encode_all :: "('a \<Rightarrow> pyerr + 'b) \<Rightarrow> 'a list \<Rightarrow> pyerr + 'b list" where
  \<comment> \<open>one call per element, the first exception ending the run\<close>
  "encode_all f [] = Inr []"
| "encode_all f (x # xs) = bind_err (f x) (\<lambda>y. bind_err (encode_all f xs) (\<lambda>ys. Inr (y # ys)))"

definition build_faiss :: "'v externals \<Rightarrow> catalog_entry list \<Rightarrow> ustr \<Rightarrow> int \<Rightarrow> pyerr + 'v faiss_index" where
  \<comment> \<open>a zero step makes \<^verbatim>\<open>range\<close> raise, no batch at all makes \<^verbatim>\<open>np.vstack\<close> raise; a batch
     is encoded text by text\<close>
  "build_faiss E rows model_id batch_size =
     (if batch_size = 0 then Inl ValueError
      else
        bind_err
          (encode_all (encode_all (st_encode E model_id True))
             (if batch_size < 0 then [] else chunks (nat batch_size) (map text_field rows)))
          (\<lambda>embeddings.
             if embeddings = [] then Inl ValueError
             else Inr \<lparr> vectors = map (astype_float32 E) (concat embeddings) \<rparr>))"

definition index_main :: "'v externals \<Rightarrow> class_dir list \<Rightarrow> catalog_entry list \<times> (pyerr + 'v faiss_index)" where
  \<comment> \<open>the script's main part: the rows that are saved and the index built from them with
     the default model and batch size\<close>
  "index_main E data_dir = (build_docs E data_dir, build_faiss E (build_docs E data_dir) MODEL_ID 256)"

definition image_files :: "'v externals \<Rightarrow> class_dir list \<Rightarrow> (ustr \<times> ustr) list" where
  \<comment> \<open>the image files of a corpus, as (class folder, file name), folder by folder\<close>
  "image_files E data_dir =
     concat (map (\<lambda>d. map (Pair (dir_name d)) (filter (is_image E) (listing d)))
                 (sort_key dir_name (filter is_dir data_dir)))"

definition demo_corpus :: "class_dir list" where
  "demo_corpus =
     [\<lparr> dir_name = u ''Tomato___Leaf_Mold'', is_dir = True,
        listing = [u ''a.JPG'', u ''notes.txt'', u ''b.png''] \<rparr>,
      \<lparr> dir_name = u ''README.md'', is_dir = False, listing = [] \<rparr>,
      \<lparr> dir_name = u ''Brown spot'', is_dir = True, listing = [u ''c.jpeg'', u ''.jpg''] \<rparr>]"

declare chunks.simps [simp del]

section \<open>Basic facts\<close>

lemma u_inj [simp]: "u a = u b \<longleftrightarrow> a = b"
  unfolding u_def by (simp add: inj_on_def)

lemma u_Nil: "u [] = []"
  by (simp add: u_def)

lemma u_Cons: "u (c # cs) = of_char c # u cs"
  by (simp add: u_def)

lemma bind_err_Inr_iff: "bind_err m f = Inr y \<longleftrightarrow> (\<exists>x. m = Inr x \<and> f x = Inr y)"
  by (cases m) (auto simp: bind_err_def)

lemma bind_err_simps [simp]:
  "bind_err (Inl e) f = Inl e"
  "bind_err (Inr x) f = f x"
  by (simp_all add: bind_err_def)

section \<open>Retrieval: search and readiness\<close>

lemmas demo_defs = demo_service_def demo_rows_def demo_externals_def

lemmas search_eval = search_similar_diseases_def search_body_def query_embedding_def
  make_result_def py_getitem_def dict_item_def dict_get_def dict_contains_def flat_ip_search_def
  inner_product_def first_letter_encode_def lower_ascii_def lower_char_def Let_def MODEL_ID_def u_Cons u_Nil

lemma make_result_hit: "make_result E md sc idx = Inr r \<Longrightarrow> hit_of r = (sc, idx)"
  by (auto simp: make_result_def bind_err_Inr_iff hit_of_def)

text \<open>The loop over the hits keeps their order: the results are the hits whose index
  passes the bound check, one result per hit.\<close>

lemma compile_results_hits:
  "compile_results E md hits = Inr rs \<Longrightarrow>
     map hit_of rs = filter (\<lambda>h. snd h < int (length md)) hits"
proof (induction hits arbitrary: rs)
  case Nil
  then show ?case by simp
next
  case (Cons h hits)
  obtain sc idx where h: "h = (sc, idx)" by (cases h)
  show ?case
  proof (cases "idx < int (length md)")
    case True
    with Cons.prems h obtain r rs' where
      r: "make_result E md sc idx = Inr r" and rs': "compile_results E md hits = Inr rs'"
      and rs: "rs = r # rs'"
      by (auto simp: bind_err_Inr_iff)
    from Cons.IH [OF rs'] make_result_hit [OF r] True h rs show ?thesis by simp
  next
    case False
    with Cons.prems h have "compile_results E md hits = Inr rs" by simp
    from Cons.IH [OF this] False h show ?thesis by simp
  qed
qed

lemma search_result_cases:
  "search_similar_diseases E s q k = [] \<or>
   (\<exists>qv hits. index s \<noteq> None \<and> model s \<noteq> None \<and> metadata s \<noteq> [] \<and> query_embedding E s q = Inr qv \<and>
      faiss_search E (vectors (the (index s))) qv k = Inr hits \<and>
      compile_results E (metadata s) hits = Inr (search_similar_diseases E s q k))"
  by (auto simp: search_similar_diseases_def search_body_def bind_err_def split: sum.splits)

lemma search_result_hits:
  assumes "query_embedding E s q = Inr qv"
    and "faiss_search E (vectors (the (index s))) qv k = Inr hits"
  shows "search_similar_diseases E s q k = [] \<or>
     map hit_of (search_similar_diseases E s q k) = filter (\<lambda>h. snd h < int (length (metadata s))) hits"
  using search_result_cases [of E s q k] assms compile_results_hits by fastforce

text \<open>With complete rows and indices no lower than minus the row count, no step of the
  loop raises.\<close>

lemma make_result_complete:
  assumes "\<forall>r\<in>set md. row_complete r" and "- int (length md) \<le> idx" and "idx < int (length md)"
  shows "make_result E md sc idx =
     Inr (project_row E (md ! nat (if idx < 0 then int (length md) + idx else idx)) sc idx)"
proof -
  let ?j = "nat (if idx < 0 then int (length md) + idx else idx)"
  from assms(2,3) have j: "?j < length md" by auto
  then have rc: "row_complete (md ! ?j)" using assms(1) by simp
  from assms(2,3) have g: "py_getitem md idx = Inr (md ! ?j)"
    by (auto simp: py_getitem_def Let_def)
  from rc show ?thesis
    unfolding make_result_def g
    by (auto simp: row_complete_def dict_contains_def dict_item_def project_row_def)
qed

lemma compile_results_complete:
  assumes "\<forall>r\<in>set md. row_complete r" and "\<forall>h\<in>set hits. - int (length md) \<le> snd h"
  shows "\<exists>rs. compile_results E md hits = Inr rs \<and>
     (\<forall>h\<in>set hits. snd h < int (length md) \<longrightarrow>
        project_row E (md ! nat (if snd h < 0 then int (length md) + snd h else snd h)) (fst h) (snd h) \<in> set rs)"
  using assms(2)
proof (induction hits)
  case Nil
  then show ?case by simp
next
  case (Cons h hits)
  obtain sc idx where h: "h = (sc, idx)" by (cases h)
  from Cons obtain rs where rs: "compile_results E md hits = Inr rs"
    and mem: "\<forall>h\<in>set hits. snd h < int (length md) \<longrightarrow>
        project_row E (md ! nat (if snd h < 0 then int (length md) + snd h else snd h)) (fst h) (snd h) \<in> set rs"
    by auto
  show ?case
  proof (cases "idx < int (length md)")
    case True
    from Cons.prems h have "- int (length md) \<le> idx" by simp
    from make_result_complete [OF assms(1) this True, of E sc] rs mem h True
    show ?thesis by auto
  next
    case False
    with rs mem h show ?thesis by auto
  qed
qed

lemma sorted_wrt_map_hits:
  assumes "sorted_wrt R hits" and "map hit_of rs = filter P hits"
  shows "sorted_wrt (\<lambda>a b. R (hit_of a) (hit_of b)) rs"
proof -
  from assms(1) have "sorted_wrt R (filter P hits)" by (rule sorted_wrt_filter)
  with assms(2) have "sorted_wrt R (map hit_of rs)" by simp
  then show ?thesis by (simp add: sorted_wrt_map)
qed

lemma search_result_exact:
  assumes "index s \<noteq> None" and "model s \<noteq> None" and "metadata s \<noteq> []"
    and qv: "query_embedding E s q = Inr qv"
    and hits: "faiss_search E (vectors (the (index s))) qv k = Inr hits"
    and rows: "\<forall>r\<in>set (metadata s). row_complete r"
    and inrange: "\<forall>h\<in>set hits. - int (length (metadata s)) \<le> snd h"
  shows "map hit_of (search_similar_diseases E s q k)
     = filter (\<lambda>h. snd h < int (length (metadata s))) hits"
proof -
  from compile_results_complete [OF rows inrange, of E] obtain rs where
    rs: "compile_results E (metadata s) hits = Inr rs"
    by blast
  from assms(1-3) qv hits rs have "search_similar_diseases E s q k = rs"
    by (auto simp: search_similar_diseases_def search_body_def)
  with compile_results_hits [OF rs] show ?thesis by simp
qed

text \<open>
  C5, as the code has it. \<^verbatim>\<open>search_similar_diseases\<close> returns the empty list when the
  index, the embedding backend or the metadata is missing, and when the embedding step or
  the index search raises, and when a step of the loop over the hits raises. Otherwise it
  holds, in the order in which the index search reports its hits, one result for each hit
  whose row label is below the number of metadata rows, with that hit's score and label;
  with complete rows and labels no lower than minus the row count no step raises. So
  there are never more results than hits, and whatever order the hits are in, descending
  by score or any other, the results are in it too. The service neither sorts nor
  truncates: the order of rows with equal scores is the one the index search reports.
\<close>

theorem search_similar_diseases_keeps_index_order:
  "(index s = None \<or> model s = None \<or> metadata s = [] \<longrightarrow> search_similar_diseases E s q top_k = [])
 \<and> (\<forall>e. query_embedding E s q = Inl e \<longrightarrow> search_similar_diseases E s q top_k = [])
 \<and> (\<forall>qv. query_embedding E s q = Inr qv \<longrightarrow>
      (\<forall>e. faiss_search E (vectors (the (index s))) qv top_k = Inl e \<longrightarrow>
           search_similar_diseases E s q top_k = [])
    \<and> (\<forall>hits. faiss_search E (vectors (the (index s))) qv top_k = Inr hits \<longrightarrow>
          (\<forall>e. compile_results E (metadata s) hits = Inl e \<longrightarrow>
               search_similar_diseases E s q top_k = [])
        \<and> (\<forall>rs. index s \<noteq> None \<and> model s \<noteq> None \<and> metadata s \<noteq> []
               \<and> compile_results E (metadata s) hits = Inr rs \<longrightarrow>
               search_similar_diseases E s q top_k = rs
             \<and> map hit_of rs = filter (\<lambda>h. snd h < int (length (metadata s))) hits)
        \<and> (index s \<noteq> None \<and> model s \<noteq> None \<and> metadata s \<noteq> []
           \<and> (\<forall>r\<in>set (metadata s). row_complete r)
           \<and> (\<forall>h\<in>set hits. - int (length (metadata s)) \<le> snd h) \<longrightarrow>
             map hit_of (search_similar_diseases E s q top_k)
               = filter (\<lambda>h. snd h < int (length (metadata s))) hits)
        \<and> length (search_similar_diseases E s q top_k) \<le> length hits
        \<and> (\<forall>R. sorted_wrt R hits \<longrightarrow>
             sorted_wrt (\<lambda>a b. R (hit_of a) (hit_of b)) (search_similar_diseases E s q top_k))))"
proof (intro conjI allI impI)
  assume "index s = None \<or> model s = None \<or> metadata s = []"
  then show "search_similar_diseases E s q top_k = []"
    by (auto simp: search_similar_diseases_def)
next
  fix e assume "query_embedding E s q = Inl e"
  then show "search_similar_diseases E s q top_k = []"
    by (simp add: search_similar_diseases_def search_body_def)
next
  fix qv e
  assume "query_embedding E s q = Inr qv" "faiss_search E (vectors (the (index s))) qv top_k = Inl e"
  then show "search_similar_diseases E s q top_k = []"
    by (simp add: search_similar_diseases_def search_body_def)
next
  fix qv hits
  assume qv: "query_embedding E s q = Inr qv"
    and hits: "faiss_search E (vectors (the (index s))) qv top_k = Inr hits"
  fix e assume "compile_results E (metadata s) hits = Inl e"
  with qv hits show "search_similar_diseases E s q top_k = []"
    by (simp add: search_similar_diseases_def search_body_def)
next
  fix qv hits rs
  assume qv: "query_embedding E s q = Inr qv"
    and hits: "faiss_search E (vectors (the (index s))) qv top_k = Inr hits"
    and ok: "index s \<noteq> None \<and> model s \<noteq> None \<and> metadata s \<noteq> []
               \<and> compile_results E (metadata s) hits = Inr rs"
  with qv hits show "search_similar_diseases E s q top_k = rs"
    by (auto simp: search_similar_diseases_def search_body_def)
next
  fix qv hits rs
  assume "index s \<noteq> None \<and> model s \<noteq> None \<and> metadata s \<noteq> []
               \<and> compile_results E (metadata s) hits = Inr rs"
  then have "compile_results E (metadata s) hits = Inr rs" by simp
  then show "map hit_of rs = filter (\<lambda>h. snd h < int (length (metadata s))) hits"
    by (rule compile_results_hits)
next
  fix qv hits
  assume qv: "query_embedding E s q = Inr qv"
    and hits: "faiss_search E (vectors (the (index s))) qv top_k = Inr hits"
    and ok: "index s \<noteq> None \<and> model s \<noteq> None \<and> metadata s \<noteq> []
           \<and> (\<forall>r\<in>set (metadata s). row_complete r)
           \<and> (\<forall>h\<in>set hits. - int (length (metadata s)) \<le> snd h)"
  from ok have l: "index s \<noteq> None" "model s \<noteq> None" "metadata s \<noteq> []"
    and rows: "\<forall>r\<in>set (metadata s). row_complete r"
    and inrange: "\<forall>h\<in>set hits. - int (length (metadata s)) \<le> snd h"
    by simp_all
  from search_result_exact [OF l qv hits rows inrange]
  show "map hit_of (search_similar_diseases E s q top_k)
               = filter (\<lambda>h. snd h < int (length (metadata s))) hits" .
next
  fix qv hits
  assume qv: "query_embedding E s q = Inr qv"
    and hits: "faiss_search E (vectors (the (index s))) qv top_k = Inr hits"
  from search_result_hits [OF qv hits]
  show "length (search_similar_diseases E s q top_k) \<le> length hits"
  proof
    assume "search_similar_diseases E s q top_k = []"
    then show ?thesis by simp
  next
    assume "map hit_of (search_similar_diseases E s q top_k) =
      filter (\<lambda>h. snd h < int (length (metadata s))) hits"
    then have "length (search_similar_diseases E s q top_k) =
      length (filter (\<lambda>h. snd h < int (length (metadata s))) hits)"
      by (metis length_map)
    also have "\<dots> \<le> length hits" by simp
    finally show ?thesis .
  qed
next
  fix qv hits R
  assume qv: "query_embedding E s q = Inr qv"
    and hits: "faiss_search E (vectors (the (index s))) qv top_k = Inr hits"
    and srt: "sorted_wrt R hits"
  from search_result_hits [OF qv hits]
  show "sorted_wrt (\<lambda>a b. R (hit_of a) (hit_of b)) (search_similar_diseases E s q top_k)"
  proof
    assume "search_similar_diseases E s q top_k = []"
    then show ?thesis by simp
  next
    assume "map hit_of (search_similar_diseases E s q top_k) =
      filter (\<lambda>h. snd h < int (length (metadata s))) hits"
    from sorted_wrt_map_hits [OF srt this] show ?thesis .
  qed
qed

text \<open>The theorem at the two-row service over two vectors searched with \<open>top_k = 2\<close>, the
  hits descending by score; and at the same service without its index.\<close>

theorem search_similar_diseases_keeps_index_order_witness:
  "search_similar_diseases demo_externals ((demo_service [[1, 0], [0, 1]])\<lparr>index := None\<rparr>) (u ''tomato spots'') 2 = []
 \<and> query_embedding demo_externals (demo_service [[1, 0], [0, 1]]) (u ''tomato spots'') = Inr [1, 0]
 \<and> flat_ip_search [[1, 0], [0, 1]] [1, 0] 2 = Inr [(1, 0), (0, 1)]
 \<and> map hit_of (search_similar_diseases demo_externals (demo_service [[1, 0], [0, 1]]) (u ''tomato spots'') 2)
     = [(1, 0), (0, 1)]
 \<and> length (search_similar_diseases demo_externals (demo_service [[1, 0], [0, 1]]) (u ''tomato spots'') 2) \<le> 2
 \<and> sorted_wrt (\<lambda>a b. fst (hit_of a) \<ge> fst (hit_of b))
      (search_similar_diseases demo_externals (demo_service [[1, 0], [0, 1]]) (u ''tomato spots'') 2)"
proof -
  let ?s = "demo_service [[1, 0], [0, 1]]" and ?q = "u ''tomato spots''"
  let ?hits = "[(1, 0), (0, 1)] :: (real \<times> int) list"
  have none: "index (?s\<lparr>index := None\<rparr>) = None" by simp
  have qv: "query_embedding demo_externals ?s ?q = Inr [1, 0]"
    by (simp add: demo_defs search_eval)
  have fs: "flat_ip_search [[1, 0], [0, 1]] [1, 0] 2 = Inr ?hits"
    by (simp add: search_eval)
  then have hits: "faiss_search demo_externals (vectors (the (index ?s))) [1, 0] 2 = Inr ?hits"
    by (simp add: demo_defs)
  have ok: "index ?s \<noteq> None \<and> model ?s \<noteq> None \<and> metadata ?s \<noteq> []
      \<and> (\<forall>r\<in>set (metadata ?s). row_complete r)
      \<and> (\<forall>h\<in>set ?hits. - int (length (metadata ?s)) \<le> snd h)"
    by (simp add: demo_defs row_complete_def dict_contains_def)
  have flt: "filter (\<lambda>h. snd h < int (length (metadata ?s))) ?hits = ?hits"
    by (simp add: demo_defs)
  have srt: "sorted_wrt (\<lambda>a b. fst a \<ge> fst b) ?hits" by simp
  from search_similar_diseases_keeps_index_order [of "?s\<lparr>index := None\<rparr>" demo_externals ?q 2] none
  have a: "search_similar_diseases demo_externals (?s\<lparr>index := None\<rparr>) ?q 2 = []" by blast
  note T = search_similar_diseases_keeps_index_order [of ?s demo_externals ?q 2]
  from T qv hits ok have "map hit_of (search_similar_diseases demo_externals ?s ?q 2)
      = filter (\<lambda>h. snd h < int (length (metadata ?s))) ?hits"
    by blast
  then have b: "map hit_of (search_similar_diseases demo_externals ?s ?q 2) = ?hits"
    by (simp only: flt)
  from T qv hits have "length (search_similar_diseases demo_externals ?s ?q 2) \<le> length ?hits"
    by blast
  then have c: "length (search_similar_diseases demo_externals ?s ?q 2) \<le> 2" by simp
  from T qv hits srt have d: "sorted_wrt (\<lambda>a b. fst (hit_of a) \<ge> fst (hit_of b))
      (search_similar_diseases demo_externals ?s ?q 2)"
    by blast
  from a qv fs b c d show ?thesis by (simp only: simp_thms)
qed

text \<open>The claim as stated fails: over two equal vectors, an index search that reports the
  later of two equal scores first has row 1 returned before row 0, so the tie is not
  broken by row order.\<close>

theorem search_similar_diseases_tie_counterexample:
  "map hit_of (search_similar_diseases last_first_externals (demo_service [[1, 0], [1, 0]]) (u ''tomato spots'') 2)
     = [(1, 1), (1, 0)]
 \<and> \<not> sorted_wrt (\<lambda>a b. ranks_before (hit_of a) (hit_of b))
      (search_similar_diseases last_first_externals (demo_service [[1, 0], [1, 0]]) (u ''tomato spots'') 2)"
proof -
  let ?rs = "search_similar_diseases last_first_externals (demo_service [[1, 0], [1, 0]]) (u ''tomato spots'') 2"
  have m: "map hit_of ?rs = [(1, 1), (1, 0)]"
    by (simp add: demo_defs last_first_externals_def last_first_ip_search_def search_eval hit_of_def)
  have "sorted_wrt (\<lambda>a b. ranks_before (hit_of a) (hit_of b)) ?rs
      = sorted_wrt ranks_before (map hit_of ?rs)"
    by (simp add: sorted_wrt_map)
  also have "\<dots> = False" unfolding m by (simp add: ranks_before_def)
  finally show ?thesis using m by simp
qed

text \<open>
  C10. The bound check \<^verbatim>\<open>idx < len(self.metadata)\<close> lets the index -1 through. When the
  service is loaded, the rows are complete and the index search returns a hit with index
  -1 (the slot FAISS pads with when \<open>top_k\<close> exceeds the number of vectors), the result
  list holds the projection of the last metadata row with that hit's score and the
  identifier -1.
\<close>

theorem search_similar_diseases_sentinel_last_row:
  assumes ready: "index s \<noteq> None" "model s \<noteq> None" "metadata s \<noteq> []"
    and qv: "query_embedding E s q = Inr qv"
    and hits: "faiss_search E (vectors (the (index s))) qv top_k = Inr hits"
    and rows: "\<forall>r\<in>set (metadata s). row_complete r"
    and inrange: "\<forall>h\<in>set hits. - int (length (metadata s)) \<le> snd h"
    and sentinel: "(sc, - 1) \<in> set hits"
  shows "project_row E (last (metadata s)) sc (- 1) \<in> set (search_similar_diseases E s q top_k)"
proof -
  from compile_results_complete [OF rows inrange, of E] obtain rs where
    rs: "compile_results E (metadata s) hits = Inr rs"
    and mem: "\<forall>h\<in>set hits. snd h < int (length (metadata s)) \<longrightarrow>
        project_row E (metadata s ! nat (if snd h < 0 then int (length (metadata s)) + snd h else snd h)) (fst h) (snd h) \<in> set rs"
    by blast
  from ready(3) have pos: "0 < length (metadata s)" by simp
  then have "(- 1 :: int) < int (length (metadata s))" by simp
  with mem sentinel have
    "project_row E (metadata s ! nat (int (length (metadata s)) + - 1)) sc (- 1) \<in> set rs"
    by fastforce
  moreover from pos have "nat (int (length (metadata s)) + - 1) = length (metadata s) - 1" by simp
  moreover from ready(3) have "metadata s ! (length (metadata s) - 1) = last (metadata s)"
    by (simp add: last_conv_nth)
  ultimately have "project_row E (last (metadata s)) sc (- 1) \<in> set rs" by simp
  moreover from ready qv hits rs have "search_similar_diseases E s q top_k = rs"
    by (auto simp: search_similar_diseases_def search_body_def)
  ultimately show ?thesis by simp
qed

text \<open>Two vectors searched with \<open>top_k = 3\<close>: the third slot is the padding, and the third
  result is the last row (Rice, healthy) with the padding's score.\<close>

theorem search_similar_diseases_sentinel_last_row_witness:
  "flat_ip_search [[1, 0], [0, 1]] [1, 0] 3 = Inr [(1, 0), (0, 1), (FLT_LOWEST, - 1)]
 \<and> project_row demo_externals (last demo_rows) FLT_LOWEST (- 1)
     \<in> set (search_similar_diseases demo_externals (demo_service [[1, 0], [0, 1]]) (u ''tomato spots'') 3)
 \<and> crop (project_row demo_externals (last demo_rows) FLT_LOWEST (- 1)) = u ''Rice''
 \<and> is_healthy (project_row demo_externals (last demo_rows) FLT_LOWEST (- 1))"
proof -
  let ?s = "demo_service [[1, 0], [0, 1]]" and ?q = "u ''tomato spots''"
  let ?hits = "[(1, 0), (0, 1), (FLT_LOWEST, - 1)] :: (real \<times> int) list"
  have ready: "index ?s \<noteq> None" "model ?s \<noteq> None" "metadata ?s \<noteq> []"
    by (simp_all add: demo_defs)
  have qv: "query_embedding demo_externals ?s ?q = Inr [1, 0]"
    by (simp add: demo_defs search_eval)
  have fs: "flat_ip_search [[1, 0], [0, 1]] [1, 0] 3 = Inr ?hits"
    by (simp add: search_eval)
  then have hits: "faiss_search demo_externals (vectors (the (index ?s))) [1, 0] 3 = Inr ?hits"
    by (simp add: demo_defs)
  have rows: "\<forall>r\<in>set (metadata ?s). row_complete r"
    by (simp add: demo_defs row_complete_def dict_contains_def)
  have inrange: "\<forall>h\<in>set ?hits. - int (length (metadata ?s)) \<le> snd h"
    by (simp add: demo_defs)
  have sentinel: "(FLT_LOWEST, - 1) \<in> set ?hits" by simp
  have md: "metadata ?s = demo_rows" by (simp add: demo_service_def)
  from search_similar_diseases_sentinel_last_row [OF ready qv hits rows inrange sentinel]
  have "project_row demo_externals (last demo_rows) FLT_LOWEST (- 1)
     \<in> set (search_similar_diseases demo_externals ?s ?q 3)"
    by (simp only: md)
  moreover have "crop (project_row demo_externals (last demo_rows) FLT_LOWEST (- 1)) = u ''Rice''"
    by (simp add: project_row_def demo_rows_def)
  moreover have "is_healthy (project_row demo_externals (last demo_rows) FLT_LOWEST (- 1))"
    by (simp add: project_row_def demo_rows_def demo_externals_def lower_ascii_def lower_char_def u_Cons u_Nil)
  ultimately show ?thesis using fs by blast
qed

text \<open>
  C2. \<^verbatim>\<open>is_service_ready\<close> is true exactly when the index is loaded, the embedding backend
  is loaded and the metadata is non-empty. The metadata row count is not compared with
  the number of vectors of the index: readiness does not depend on which index is loaded,
  and a ready service searches, whatever the two counts are.
\<close>

theorem is_service_ready_iff_loaded:
  "(is_service_ready s \<longleftrightarrow> index s \<noteq> None \<and> model s \<noteq> None \<and> metadata s \<noteq> [])
 \<and> is_service_ready (s\<lparr>index := Some ix\<rparr>) = is_service_ready (s\<lparr>index := Some ix'\<rparr>)
 \<and> (is_service_ready s \<longrightarrow>
      search_similar_diseases E s q top_k = (case search_body E s q top_k of Inl e \<Rightarrow> [] | Inr rs \<Rightarrow> rs))"
  by (auto simp: is_service_ready_def search_similar_diseases_def)

theorem is_service_ready_iff_loaded_witness:
  "is_service_ready (demo_service [[1, 0], [0, 1]])
 \<and> search_similar_diseases demo_externals (demo_service [[1, 0], [0, 1]]) (u ''tomato spots'') 1
     = (case search_body demo_externals (demo_service [[1, 0], [0, 1]]) (u ''tomato spots'') 1 of
          Inl e \<Rightarrow> [] | Inr rs \<Rightarrow> rs)"
proof -
  have r: "is_service_ready (demo_service [[1, 0], [0, 1]])"
    by (simp add: is_service_ready_def demo_defs)
  with is_service_ready_iff_loaded
    [of "demo_service [[1, 0], [0, 1]]" "\<lparr>vectors = []\<rparr>" "\<lparr>vectors = []\<rparr>" demo_externals "u ''tomato spots''" 1]
  show ?thesis by blast
qed

text \<open>The claim as stated fails: two metadata rows over an index of three vectors report
  ready, and a search is served from the mismatched pair.\<close>

theorem is_service_ready_row_count_counterexample:
  "length (metadata (demo_service [[1, 0], [0, 1], [1, 1]])) \<noteq> ntotal (the (index (demo_service [[1, 0], [0, 1], [1, 1]])))
 \<and> is_service_ready (demo_service [[1, 0], [0, 1], [1, 1]])
 \<and> map hit_of (search_similar_diseases demo_externals (demo_service [[1, 0], [0, 1], [1, 1]]) (u ''tomato spots'') 1)
     = [(1, 0)]"
  by (simp add: is_service_ready_def demo_defs ntotal_def search_eval hit_of_def)

section \<open>Synthesizer: parsing the reply\<close>

lemmas str_eval = strip_def lstrip_where_def rstrip_where_def isspace_def startswith_def
  u_Cons u_Nil lower_ascii_def lower_char_def

lemmas structure_eval = structure_text_response_def structure_lines_def structure_line_def
  initial_structuring_def any_keyword_def is_bullet_def clean_bullet_def default_recommendations_def
  default_preventive_measures_def Let_def

lemma any_keyword_append:
  "any_keyword E (xs @ ys) line \<longleftrightarrow> any_keyword E xs line \<or> any_keyword E ys line"
  by (auto simp: any_keyword_def list_ex_iff)

lemma keyword_line_iff:
  "keyword_line E line \<longleftrightarrow>
     any_keyword E [''treatment'', ''recommend'', ''apply''] line
   \<or> any_keyword E [''prevent'', ''avoid'', ''maintain''] line
   \<or> any_keyword E [''fertilizer'', ''nutrient'', ''npk''] line
   \<or> any_keyword E [''urgent'', ''immediate'', ''critical''] line"
  by (auto simp: keyword_line_def any_keyword_def)

lemma structure_line_keyword_keeps_lists:
  assumes "keyword_line E (strip raw)"
  shows "recommendations (structure_line E st raw) = recommendations st
       \<and> preventive_measures (structure_line E st raw) = preventive_measures st"
  using assms by (auto simp: structure_line_def Let_def keyword_line_iff)

lemma structure_line_bullet:
  assumes "strip raw \<noteq> []" and "\<not> keyword_line E (strip raw)" and "is_bullet (strip raw)"
  shows "structure_line E st raw =
     (case current_section st of
        Some Recommendations \<Rightarrow> st\<lparr>recommendations := recommendations st @ [clean_bullet (strip raw)]\<rparr>
      | Some Preventive_measures \<Rightarrow> st\<lparr>preventive_measures := preventive_measures st @ [clean_bullet (strip raw)]\<rparr>
      | None \<Rightarrow> st)"
  using assms by (simp add: structure_line_def Let_def keyword_line_iff)

lemma capped_list:
  "xs \<noteq> [] \<Longrightarrow> 1 \<le> length (take 6 xs) \<and> length (take 6 xs) \<le> 6"
  by (cases xs) auto

text \<open>
  C7, as the code has it. For every reply text, the line-based fallback returns
  \<^verbatim>\<open>primary_diagnosis\<close> "AI analysis completed", \<^verbatim>\<open>confidence\<close> "medium" and \<^verbatim>\<open>llm_analysis\<close>
  equal to the text; each of the two lists has between one and six entries, being the
  first six captured bullets, or, when none was captured, the default: one sentence for
  \<^verbatim>\<open>recommendations\<close>, two sentences for \<^verbatim>\<open>preventive_measures\<close>. A non-empty line that starts
  with a bullet and holds none of the twelve keywords is appended, stripped of its
  leading bullets and spaces, to the list of the active section; a line that holds a
  keyword is read as a header and never appended, bulleted or not. The function has no
  raising path, so it is total.
\<close>

theorem structure_text_response_shape:
  "map_of (structure_text_response E t) (u ''primary_diagnosis'') = Some (JStr (u ''AI analysis completed''))
 \<and> map_of (structure_text_response E t) (u ''confidence'') = Some (JStr (u ''medium''))
 \<and> map_of (structure_text_response E t) (u ''llm_analysis'') = Some (JStr t)
 \<and> (\<exists>rs. map_of (structure_text_response E t) (u ''recommendations'') = Some (JArr (map JStr rs))
        \<and> 1 \<le> length rs \<and> length rs \<le> 6
        \<and> (recommendations (structure_lines E t) = [] \<longrightarrow> rs = default_recommendations \<and> length rs = 1)
        \<and> (recommendations (structure_lines E t) \<noteq> [] \<longrightarrow> rs = take 6 (recommendations (structure_lines E t))))
 \<and> (\<exists>ps. map_of (structure_text_response E t) (u ''preventive_measures'') = Some (JArr (map JStr ps))
        \<and> 1 \<le> length ps \<and> length ps \<le> 6
        \<and> (preventive_measures (structure_lines E t) = [] \<longrightarrow> ps = default_preventive_measures \<and> length ps = 2)
        \<and> (preventive_measures (structure_lines E t) \<noteq> [] \<longrightarrow> ps = take 6 (preventive_measures (structure_lines E t))))
 \<and> (strip raw \<noteq> [] \<and> \<not> keyword_line E (strip raw) \<and> is_bullet (strip raw) \<longrightarrow>
       structure_line E st raw =
         (case current_section st of
            Some Recommendations \<Rightarrow> st\<lparr>recommendations := recommendations st @ [clean_bullet (strip raw)]\<rparr>
          | Some Preventive_measures \<Rightarrow> st\<lparr>preventive_measures := preventive_measures st @ [clean_bullet (strip raw)]\<rparr>
          | None \<Rightarrow> st))
 \<and> (keyword_line E (strip raw) \<longrightarrow>
       recommendations (structure_line E st raw) = recommendations st
     \<and> preventive_measures (structure_line E st raw) = preventive_measures st)"
proof -
  let ?r = "structure_text_response E t" and ?st = "structure_lines E t"
  let ?rs = "take 6 (if recommendations ?st = [] then default_recommendations else recommendations ?st)"
  let ?ps = "take 6 (if preventive_measures ?st = [] then default_preventive_measures else preventive_measures ?st)"
  have a: "map_of ?r (u ''primary_diagnosis'') = Some (JStr (u ''AI analysis completed''))"
    by (simp add: structure_text_response_def Let_def)
  have b: "map_of ?r (u ''confidence'') = Some (JStr (u ''medium''))"
    by (simp add: structure_text_response_def Let_def)
  have c: "map_of ?r (u ''llm_analysis'') = Some (JStr t)"
    by (simp add: structure_text_response_def Let_def)
  have d1: "map_of ?r (u ''recommendations'') = Some (JArr (map JStr ?rs))"
    by (simp add: structure_text_response_def Let_def)
  have d2: "1 \<le> length ?rs \<and> length ?rs \<le> 6"
    by (rule capped_list) (simp add: default_recommendations_def)
  have d3: "recommendations ?st = [] \<longrightarrow> ?rs = default_recommendations \<and> length ?rs = 1"
    by (simp add: default_recommendations_def)
  have d4: "recommendations ?st \<noteq> [] \<longrightarrow> ?rs = take 6 (recommendations ?st)"
    by simp
  have e1: "map_of ?r (u ''preventive_measures'') = Some (JArr (map JStr ?ps))"
    by (simp add: structure_text_response_def Let_def)
  have e2: "1 \<le> length ?ps \<and> length ?ps \<le> 6"
    by (rule capped_list) (simp add: default_preventive_measures_def)
  have e3: "preventive_measures ?st = [] \<longrightarrow> ?ps = default_preventive_measures \<and> length ?ps = 2"
    by (simp add: default_preventive_measures_def)
  have e4: "preventive_measures ?st \<noteq> [] \<longrightarrow> ?ps = take 6 (preventive_measures ?st)"
    by simp
  from d1 d2 d3 d4 have d: "\<exists>rs. map_of ?r (u ''recommendations'') = Some (JArr (map JStr rs))
        \<and> 1 \<le> length rs \<and> length rs \<le> 6
        \<and> (recommendations ?st = [] \<longrightarrow> rs = default_recommendations \<and> length rs = 1)
        \<and> (recommendations ?st \<noteq> [] \<longrightarrow> rs = take 6 (recommendations ?st))"
    by blast
  from e1 e2 e3 e4 have e: "\<exists>ps. map_of ?r (u ''preventive_measures'') = Some (JArr (map JStr ps))
        \<and> 1 \<le> length ps \<and> length ps \<le> 6
        \<and> (preventive_measures ?st = [] \<longrightarrow> ps = default_preventive_measures \<and> length ps = 2)
        \<and> (preventive_measures ?st \<noteq> [] \<longrightarrow> ps = take 6 (preventive_measures ?st))"
    by blast
  from a b c d e structure_line_bullet [of raw E st] structure_line_keyword_keeps_lists [of E raw st]
  show ?thesis by blast
qed

text \<open>The theorem at a reply whose second line is a bullet without a keyword, and at the
  header line itself.\<close>

theorem structure_text_response_shape_witness:
  "recommendations (structure_lines demo_externals (u ''Treatment:\<newline>- Remove spotted leaves'')) \<noteq> []
 \<and> map_of (structure_text_response demo_externals (u ''Treatment:\<newline>- Remove spotted leaves'')) (u ''recommendations'')
     = Some (JArr [JStr (u ''Remove spotted leaves'')])
 \<and> preventive_measures (structure_lines demo_externals (u ''Treatment:\<newline>- Remove spotted leaves'')) = []
 \<and> map_of (structure_text_response demo_externals (u ''Treatment:\<newline>- Remove spotted leaves'')) (u ''preventive_measures'')
     = Some (JArr (map JStr default_preventive_measures))
 \<and> strip (u ''  - Remove spotted leaves '') \<noteq> []
 \<and> \<not> keyword_line demo_externals (strip (u ''  - Remove spotted leaves ''))
 \<and> is_bullet (strip (u ''  - Remove spotted leaves ''))
 \<and> recommendations (structure_line demo_externals (initial_structuring\<lparr>current_section := Some Recommendations\<rparr>)
       (u ''  - Remove spotted leaves '')) = [u ''Remove spotted leaves'']
 \<and> keyword_line demo_externals (strip (u ''- Apply fungicide weekly''))
 \<and> recommendations (structure_line demo_externals (initial_structuring\<lparr>current_section := Some Recommendations\<rparr>)
       (u ''- Apply fungicide weekly'')) = []"
proof -
  let ?t = "u ''Treatment:\<newline>- Remove spotted leaves''"
  let ?st = "initial_structuring\<lparr>current_section := Some Recommendations\<rparr>"
  let ?b = "u ''  - Remove spotted leaves ''" and ?k = "u ''- Apply fungicide weekly''"
  note T = structure_text_response_shape [of demo_externals ?t ?b ?st]
  note K = structure_text_response_shape [of demo_externals ?t ?k ?st]
  have lines: "recommendations (structure_lines demo_externals ?t) = [u ''Remove spotted leaves'']"
    "preventive_measures (structure_lines demo_externals ?t) = []"
    by (simp_all add: structure_eval str_eval demo_externals_def)
  have h1: "strip ?b \<noteq> []" by (simp add: str_eval)
  have h2: "\<not> keyword_line demo_externals (strip ?b)"
    by (simp add: keyword_line_def any_keyword_def str_eval demo_externals_def)
  have h3: "is_bullet (strip ?b)" by (simp add: is_bullet_def str_eval)
  have h4: "keyword_line demo_externals (strip ?k)"
    by (simp add: keyword_line_def any_keyword_def str_eval demo_externals_def)
  have cb: "clean_bullet (strip ?b) = u ''Remove spotted leaves''"
    by (simp add: clean_bullet_def str_eval)
  from T lines have r1: "map_of (structure_text_response demo_externals ?t) (u ''recommendations'')
     = Some (JArr [JStr (u ''Remove spotted leaves'')])"
    by auto
  from T lines have r2: "map_of (structure_text_response demo_externals ?t) (u ''preventive_measures'')
     = Some (JArr (map JStr default_preventive_measures))"
    by auto
  from T h1 h2 h3 have "structure_line demo_externals ?st ?b =
      ?st\<lparr>recommendations := recommendations ?st @ [clean_bullet (strip ?b)]\<rparr>"
    by simp
  then have r3: "recommendations (structure_line demo_externals ?st ?b) = [u ''Remove spotted leaves'']"
    by (simp add: cb initial_structuring_def)
  from K h4 have r4: "recommendations (structure_line demo_externals ?st ?k) = []"
    by (simp add: initial_structuring_def)
  from lines r1 r2 h1 h2 h3 r3 h4 r4 show ?thesis by simp
qed

text \<open>The claim as stated fails twice. On the empty reply no bullet is captured and
  \<^verbatim>\<open>preventive_measures\<close> is seeded with two sentences, not one. And the bulleted line
  "- Apply fungicide weekly" under the active section \<^verbatim>\<open>recommendations\<close> is not appended:
  it holds the keyword "apply", so it is read as a header, and only the next bullet is kept.\<close>

theorem structure_text_response_counterexample:
  "map_of (structure_text_response demo_externals []) (u ''preventive_measures'')
     = Some (JArr [JStr (u ''Maintain good plant hygiene''), JStr (u ''Monitor plants regularly'')])
 \<and> map_of (structure_text_response demo_externals
       (u ''Treatment:\<newline>- Apply fungicide weekly\<newline>- Remove spotted leaves'')) (u ''recommendations'')
     = Some (JArr [JStr (u ''Remove spotted leaves'')])"
  by (simp add: structure_eval str_eval demo_externals_def)

lemma map_of_set_default:
  "map_of (set_default d k v) k' = (if k' = k \<and> map_of d k = None then Some v else map_of d k')"
  by (simp add: set_default_def dict_contains_def dict_set_def update_conv')

lemma map_of_fill_missing:
  "map_of (fill_missing d t) k =
     (case map_of d k of
        Some v \<Rightarrow> Some v
      | None \<Rightarrow> if k \<in> set required_fields then Some (JStr NOT_SPECIFIED)
                else if k = u ''urgency'' then Some (JStr (u ''medium''))
                else if k = u ''llm_analysis'' then Some (JStr t)
                else None)"
  by (simp add: fill_missing_def required_fields_def map_of_set_default split: option.splits)

text \<open>When the reply holds a block from an opening to a closing brace and \<^verbatim>\<open>json.loads\<close>
  accepts it, every key of the parsed object keeps its value; each of the five required
  fields that is absent gets the text "Not specified in LLM response"; an absent
  \<^verbatim>\<open>urgency\<close> becomes "medium"; an absent \<^verbatim>\<open>llm_analysis\<close> becomes the whole reply text.\<close>

lemma parse_llm_recommendations_structured:
  assumes "json_block t = Some blk" and "json_loads E blk = Inr d"
  shows "(\<forall>f\<in>set required_fields. \<not> dict_contains d f \<longrightarrow>
            map_of (parse_llm_recommendations E t) f = Some (JStr NOT_SPECIFIED))
       \<and> (\<not> dict_contains d (u ''urgency'') \<longrightarrow>
            map_of (parse_llm_recommendations E t) (u ''urgency'') = Some (JStr (u ''medium'')))
       \<and> (\<not> dict_contains d (u ''llm_analysis'') \<longrightarrow>
            map_of (parse_llm_recommendations E t) (u ''llm_analysis'') = Some (JStr t))
       \<and> (\<forall>k. dict_contains d k \<longrightarrow> map_of (parse_llm_recommendations E t) k = map_of d k)
       \<and> NOT_SPECIFIED = u ''Not specified in LLM response''"
proof -
  from assms have p: "parse_llm_recommendations E t = fill_missing d t"
    by (simp add: parse_llm_recommendations_def parsed_json_def)
  show ?thesis
    unfolding p
    by (auto simp: map_of_fill_missing dict_contains_def required_fields_def NOT_SPECIFIED_def)
qed

text \<open>
  C6, at the reply \<^verbatim>\<open>Here: {"urgency": "high"} ok\<close>, whose brace block parses to an object
  with the one key \<^verbatim>\<open>urgency\<close>. The parser keeps \<^verbatim>\<open>urgency\<close>, stores the reply under
  \<^verbatim>\<open>llm_analysis\<close> and gives \<^verbatim>\<open>primary_diagnosis\<close> the placeholder text, as the claim says. The
  list-valued fields \<^verbatim>\<open>recommendations\<close> and \<^verbatim>\<open>preventive_measures\<close> get the same bare text:
  not the list of one element that the claim states for them, and that the parser's own
  line-based branch gives \<^verbatim>\<open>recommendations\<close> on a reply without braces.
\<close>

theorem parse_llm_recommendations_list_fields_bare_text:
  "json_block (u ''Here: {\"urgency\": \"high\"} ok'') = Some (u ''{\"urgency\": \"high\"}'')
 \<and> json_loads demo_externals (u ''{\"urgency\": \"high\"}'') = Inr [(u ''urgency'', JStr (u ''high''))]
 \<and> map_of (parse_llm_recommendations demo_externals (u ''Here: {\"urgency\": \"high\"} ok'')) (u ''urgency'')
     = Some (JStr (u ''high''))
 \<and> map_of (parse_llm_recommendations demo_externals (u ''Here: {\"urgency\": \"high\"} ok'')) (u ''llm_analysis'')
     = Some (JStr (u ''Here: {\"urgency\": \"high\"} ok''))
 \<and> map_of (parse_llm_recommendations demo_externals (u ''Here: {\"urgency\": \"high\"} ok'')) (u ''primary_diagnosis'')
     = Some (JStr (u ''Not specified in LLM response''))
 \<and> map_of (parse_llm_recommendations demo_externals (u ''Here: {\"urgency\": \"high\"} ok'')) (u ''recommendations'')
     = Some (JStr (u ''Not specified in LLM response''))
 \<and> map_of (parse_llm_recommendations demo_externals (u ''Here: {\"urgency\": \"high\"} ok'')) (u ''preventive_measures'')
     = Some (JStr (u ''Not specified in LLM response''))
 \<and> map_of (parse_llm_recommendations demo_externals (u ''Here: {\"urgency\": \"high\"} ok'')) (u ''recommendations'')
     \<noteq> Some (JArr [JStr (u ''Not specified in LLM response'')])
 \<and> map_of (parse_llm_recommendations demo_externals (u ''Here: {\"urgency\": \"high\"} ok'')) (u ''preventive_measures'')
     \<noteq> Some (JArr [JStr (u ''Not specified in LLM response'')])
 \<and> map_of (parse_llm_recommendations demo_externals (u ''ok'')) (u ''recommendations'')
     = Some (JArr [JStr (u ''Follow agricultural best practices for the identified condition'')])"
proof -
  let ?t = "u ''Here: {\"urgency\": \"high\"} ok''" and ?blk = "u ''{\"urgency\": \"high\"}''"
  let ?d = "[(u ''urgency'', JStr (u ''high''))]"
  have b: "json_block ?t = Some ?blk"
    by (simp add: json_block_def Let_def u_Cons u_Nil)
  have l: "json_loads demo_externals ?blk = Inr ?d"
    by (simp add: demo_externals_def braces_only_loads_def)
  note T = parse_llm_recommendations_structured [OF b l]
  have m1: "u ''recommendations'' \<in> set required_fields" "u ''preventive_measures'' \<in> set required_fields"
    "u ''primary_diagnosis'' \<in> set required_fields"
    by (simp_all add: required_fields_def)
  have m2: "\<not> dict_contains ?d (u ''recommendations'')" "\<not> dict_contains ?d (u ''preventive_measures'')"
    "\<not> dict_contains ?d (u ''primary_diagnosis'')"
    by (simp_all add: dict_contains_def)
  have m3: "dict_contains ?d (u ''urgency'')" by (simp add: dict_contains_def)
  have m4: "\<not> dict_contains ?d (u ''llm_analysis'')" by (simp add: dict_contains_def)
  from T m1(1) m2(1) have r1: "map_of (parse_llm_recommendations demo_externals ?t) (u ''recommendations'')
     = Some (JStr (u ''Not specified in LLM response''))" by metis
  from T m1(2) m2(2) have r1': "map_of (parse_llm_recommendations demo_externals ?t) (u ''preventive_measures'')
     = Some (JStr (u ''Not specified in LLM response''))" by metis
  from T m1(3) m2(3) have r1'': "map_of (parse_llm_recommendations demo_externals ?t) (u ''primary_diagnosis'')
     = Some (JStr (u ''Not specified in LLM response''))" by metis
  from T m3 have "map_of (parse_llm_recommendations demo_externals ?t) (u ''urgency'') = map_of ?d (u ''urgency'')"
    by blast
  then have r2: "map_of (parse_llm_recommendations demo_externals ?t) (u ''urgency'') = Some (JStr (u ''high''))"
    by simp
  from T m4 have r3: "map_of (parse_llm_recommendations demo_externals ?t) (u ''llm_analysis'') = Some (JStr ?t)"
    by blast
  have n1: "map_of (parse_llm_recommendations demo_externals ?t) (u ''recommendations'')
     \<noteq> Some (JArr [JStr (u ''Not specified in LLM response'')])"
    unfolding r1 by simp
  have n2: "map_of (parse_llm_recommendations demo_externals ?t) (u ''preventive_measures'')
     \<noteq> Some (JArr [JStr (u ''Not specified in LLM response'')])"
    unfolding r1' by simp
  have j: "parsed_json demo_externals (u ''ok'') = None"
    by (simp add: parsed_json_def json_block_def Let_def u_Cons u_Nil)
  have s: "map_of (parse_llm_recommendations demo_externals (u ''ok'')) (u ''recommendations'')
     = Some (JArr [JStr (u ''Follow agricultural best practices for the identified condition'')])"
    unfolding parse_llm_recommendations_def j
    by (simp add: structure_eval str_eval demo_externals_def)
  from b l r2 r3 r1'' r1 r1' n1 n2 s show ?thesis by (simp only: simp_thms)
qed

section \<open>Synthesizer: the branch table\<close>

lemma u_empty_iff [simp]: "u a = [] \<longleftrightarrow> a = []" "[] = u a \<longleftrightarrow> a = []"
  by (auto simp: u_def)

lemma map_of_dict_set: "map_of (dict_set d k v) k' = (if k' = k then Some v else map_of d k')"
  by (simp add: dict_set_def update_conv')

text \<open>The synthesizer returns one of four records, according to the evidence and to
  whether a reply text reached the parser.\<close>

lemma get_treatment_recommendations_no_reply:
  assumes "generator_reply E s ms ct uid = None"
  shows "get_treatment_recommendations E s ms ct uid =
     (case ms of [] \<Rightarrow> no_match_fallback
      | m # _ \<Rightarrow> get_fallback_recommendations E (py_or ct (crop m)) (condition m) ms)"
  using assms
  by (auto simp: get_treatment_recommendations_def generator_reply_def Let_def
           split: list.splits option.splits)

lemma get_treatment_recommendations_reply:
  assumes "generator_reply E s ms ct uid = Some t"
  shows "(ms = [] \<and> get_treatment_recommendations E s ms ct uid = parse_llm_recommendations E t)
       \<or> (ms \<noteq> [] \<and> (\<exists>mu. get_treatment_recommendations E s ms ct uid =
            dict_set (dict_set (parse_llm_recommendations E t) (u ''similar_cases'') (similar_cases E ms))
              (u ''model_used'') (JStr mu)))"
  using assms
  by (auto simp: get_treatment_recommendations_def generator_reply_def Let_def
           split: list.splits option.splits)

lemma structure_line_texts:
  assumes "fertilizer_advice st \<noteq> []" and "urgency st \<noteq> []"
  shows "fertilizer_advice (structure_line E st raw) \<noteq> [] \<and> urgency (structure_line E st raw) \<noteq> []"
  using assms by (auto simp: structure_line_def Let_def split: option.splits section_name.splits)

lemma foldl_structure_line_texts:
  assumes "fertilizer_advice st \<noteq> []" and "urgency st \<noteq> []"
  shows "fertilizer_advice (foldl (structure_line E) st ls) \<noteq> []
       \<and> urgency (foldl (structure_line E) st ls) \<noteq> []"
  using assms
proof (induction ls arbitrary: st)
  case Nil
  then show ?case by simp
next
  case (Cons l ls)
  from structure_line_texts [OF Cons.prems, of E l] Cons.IH [of "structure_line E st l"]
  show ?case by simp
qed

lemma structure_lines_texts:
  "fertilizer_advice (structure_lines E t) \<noteq> [] \<and> urgency (structure_lines E t) \<noteq> []"
  unfolding structure_lines_def
  by (rule foldl_structure_line_texts) (simp_all add: initial_structuring_def)

lemma structure_text_response_nonempty:
  "\<forall>k\<in>set advice_fields. field_nonempty (structure_text_response E t) k"
  using structure_lines_texts [of E t]
  by (simp add: advice_fields_def field_nonempty_def nonempty_json_def structure_text_response_def
        Let_def default_recommendations_def default_preventive_measures_def)

lemma structure_text_response_keys:
  "\<forall>k\<in>set advice_fields \<union> {u ''llm_analysis''}. dict_contains (structure_text_response E t) k"
  by (simp add: advice_fields_def dict_contains_def structure_text_response_def Let_def)

lemma fill_missing_keys:
  "\<forall>k\<in>set advice_fields \<union> {u ''llm_analysis''}. dict_contains (fill_missing d t) k"
  by (simp add: advice_fields_def dict_contains_def map_of_fill_missing required_fields_def
        split: option.splits)

lemma parse_llm_recommendations_keys:
  "\<forall>k\<in>set advice_fields \<union> {u ''llm_analysis''}. dict_contains (parse_llm_recommendations E t) k"
  using structure_text_response_keys [of E t] fill_missing_keys
  by (simp add: parse_llm_recommendations_def split: option.splits)

lemma no_match_fallback_fields:
  "(\<forall>k\<in>set advice_fields \<union> {u ''llm_analysis''}. field_nonempty no_match_fallback k)"
  by (simp add: advice_fields_def field_nonempty_def nonempty_json_def no_match_fallback_def)

lemma get_fallback_recommendations_fields:
  "(\<forall>k\<in>set advice_fields \<union> {u ''llm_analysis''}. field_nonempty (get_fallback_recommendations E c cnd ms) k)"
  by (simp add: advice_fields_def field_nonempty_def nonempty_json_def get_fallback_recommendations_def)

lemma field_nonempty_contains: "field_nonempty d k \<Longrightarrow> dict_contains d k"
  by (simp add: field_nonempty_def dict_contains_def split: option.splits)

lemma dict_set_contains: "dict_contains d k \<Longrightarrow> dict_contains (dict_set d k' v) k"
  by (simp add: dict_contains_def map_of_dict_set)

lemma similar_cases_length:
  "similar_cases E ms = JArr cs \<Longrightarrow> length cs = min 3 (length ms)"
  by (auto simp: similar_cases_def)

lemma get_treatment_recommendations_keys:
  "\<forall>k\<in>set advice_fields \<union> {u ''llm_analysis''}. dict_contains (get_treatment_recommendations E s ms ct uid) k"
proof (cases "generator_reply E s ms ct uid")
  case None
  show ?thesis
  proof (cases ms)
    case Nil
    with get_treatment_recommendations_no_reply [OF None] no_match_fallback_fields
    show ?thesis by (auto intro: field_nonempty_contains)
  next
    case (Cons m rest)
    with get_treatment_recommendations_no_reply [OF None]
      get_fallback_recommendations_fields [of E "py_or ct (crop m)" "condition m" ms]
    show ?thesis by (auto intro: field_nonempty_contains)
  qed
next
  case (Some t)
  from get_treatment_recommendations_reply [OF Some] parse_llm_recommendations_keys [of E t]
  show ?thesis by (auto simp: dict_set_contains)
qed

lemma get_treatment_recommendations_similar_cases:
  assumes "ms \<noteq> []"
  shows "map_of (get_treatment_recommendations E s ms ct uid) (u ''similar_cases'') = Some (similar_cases E ms)"
proof (cases "generator_reply E s ms ct uid")
  case None
  from assms obtain m rest where "ms = m # rest" by (cases ms) auto
  with get_treatment_recommendations_no_reply [OF None] show ?thesis
    by (simp add: get_fallback_recommendations_def)
next
  case (Some t)
  from get_treatment_recommendations_reply [OF Some] assms show ?thesis
    by (auto simp: map_of_dict_set)
qed

lemma get_treatment_recommendations_text_path:
  assumes "generator_reply E s ms ct uid = Some t" and "parsed_json E t = None"
  shows "\<forall>k\<in>set advice_fields. field_nonempty (get_treatment_recommendations E s ms ct uid) k"
proof -
  from assms(2) have p: "parse_llm_recommendations E t = structure_text_response E t"
    by (simp add: parse_llm_recommendations_def)
  have keys: "u ''similar_cases'' \<notin> set advice_fields" "u ''model_used'' \<notin> set advice_fields"
    by (simp_all add: advice_fields_def)
  from get_treatment_recommendations_reply [OF assms(1)] structure_text_response_nonempty [of E t] keys
  show ?thesis
    unfolding p by (auto simp: field_nonempty_def map_of_dict_set)
qed

lemma parsed_json_reply:
  assumes "parsed_json E t = Some d"
  shows "parse_llm_recommendations E t = fill_missing d t" and "t \<noteq> []"
  using assms
  by (auto simp: parse_llm_recommendations_def parsed_json_def json_block_def split: option.splits)

lemma fill_missing_defaults:
  assumes "t \<noteq> []" and "k \<in> set advice_fields \<union> {u ''llm_analysis''}" and "\<not> dict_contains d k"
  shows "field_nonempty (fill_missing d t) k"
  using assms
  by (auto simp: field_nonempty_def map_of_fill_missing dict_contains_def advice_fields_def
        required_fields_def nonempty_json_def NOT_SPECIFIED_def)

lemma get_treatment_recommendations_json_path:
  assumes g: "generator_reply E s ms ct uid = Some t" and j: "parsed_json E t = Some d"
  shows "(\<forall>k\<in>set advice_fields \<union> {u ''llm_analysis''}. \<not> dict_contains d k \<longrightarrow>
            field_nonempty (get_treatment_recommendations E s ms ct uid) k)
       \<and> (\<forall>k. dict_contains d k \<and> (ms = [] \<or> (k \<noteq> u ''similar_cases'' \<and> k \<noteq> u ''model_used'')) \<longrightarrow>
            map_of (get_treatment_recommendations E s ms ct uid) k = map_of d k)"
proof (intro conjI ballI allI impI)
  note p = parsed_json_reply [OF j]
  fix k assume k: "k \<in> set advice_fields \<union> {u ''llm_analysis''}" and a: "\<not> dict_contains d k"
  from k have ne: "k \<noteq> u ''similar_cases''" "k \<noteq> u ''model_used''"
    by (auto simp: advice_fields_def)
  from fill_missing_defaults [OF p(2) k a] have f: "field_nonempty (parse_llm_recommendations E t) k"
    by (simp add: p(1))
  from get_treatment_recommendations_reply [OF g] f ne
  show "field_nonempty (get_treatment_recommendations E s ms ct uid) k"
    by (auto simp: field_nonempty_def map_of_dict_set)
next
  note p = parsed_json_reply [OF j]
  fix k assume k: "dict_contains d k \<and> (ms = [] \<or> (k \<noteq> u ''similar_cases'' \<and> k \<noteq> u ''model_used''))"
  then have "map_of (parse_llm_recommendations E t) k = map_of d k"
    by (auto simp: p(1) map_of_fill_missing dict_contains_def split: option.splits)
  with get_treatment_recommendations_reply [OF g] k
  show "map_of (get_treatment_recommendations E s ms ct uid) k = map_of d k"
    by (auto simp: map_of_dict_set)
qed

text \<open>
  C3, as the code has it. On every path of the branch table the returned record holds the
  seven keys \<^verbatim>\<open>primary_diagnosis\<close>, \<^verbatim>\<open>confidence\<close>, \<^verbatim>\<open>recommendations\<close>, \<^verbatim>\<open>preventive_measures\<close>,
  \<^verbatim>\<open>fertilizer_advice\<close>, \<^verbatim>\<open>urgency\<close> and \<^verbatim>\<open>llm_analysis\<close>. With evidence, \<^verbatim>\<open>similar_cases\<close> is
  present and is the service's list of the first three matches; when moreover a reply of
  the generator is parsed, \<^verbatim>\<open>model_used\<close> is present. When no reply is parsed (generator
  absent, raising or unsuccessful) the seven keys are non-empty, and when the reply is
  parsed by the line-based path the first six are; lists then have at least one entry.
  When the reply is parsed as a JSON object, each of the seven keys that the object lacks
  is non-empty in the record, and each key that the object holds, other than
  \<^verbatim>\<open>similar_cases\<close> and \<^verbatim>\<open>model_used\<close> when there is evidence, has in the record the value
  the generator wrote, empty or not.
\<close>

theorem get_treatment_recommendations_fields:
  "(\<forall>k\<in>set advice_fields \<union> {u ''llm_analysis''}.
      dict_contains (get_treatment_recommendations E s ms ct uid) k)
 \<and> (ms \<noteq> [] \<longrightarrow>
      map_of (get_treatment_recommendations E s ms ct uid) (u ''similar_cases'') = Some (similar_cases E ms)
    \<and> (\<exists>cs. similar_cases E ms = JArr cs \<and> length cs = min 3 (length ms) \<and> 1 \<le> length cs))
 \<and> (ms \<noteq> [] \<and> generator_reply E s ms ct uid \<noteq> None \<longrightarrow>
      dict_contains (get_treatment_recommendations E s ms ct uid) (u ''model_used''))
 \<and> (generator_reply E s ms ct uid = None \<longrightarrow>
      (\<forall>k\<in>set advice_fields \<union> {u ''llm_analysis''}.
         field_nonempty (get_treatment_recommendations E s ms ct uid) k))
 \<and> (\<forall>t. generator_reply E s ms ct uid = Some t \<and> parsed_json E t = None \<longrightarrow>
      (\<forall>k\<in>set advice_fields. field_nonempty (get_treatment_recommendations E s ms ct uid) k))
 \<and> (\<forall>t d. generator_reply E s ms ct uid = Some t \<and> parsed_json E t = Some d \<longrightarrow>
      (\<forall>k\<in>set advice_fields \<union> {u ''llm_analysis''}. \<not> dict_contains d k \<longrightarrow>
         field_nonempty (get_treatment_recommendations E s ms ct uid) k)
    \<and> (\<forall>k. dict_contains d k \<and> (ms = [] \<or> (k \<noteq> u ''similar_cases'' \<and> k \<noteq> u ''model_used'')) \<longrightarrow>
         map_of (get_treatment_recommendations E s ms ct uid) k = map_of d k))"
proof -
  have keys: "\<forall>k\<in>set advice_fields \<union> {u ''llm_analysis''}.
      dict_contains (get_treatment_recommendations E s ms ct uid) k"
    by (rule get_treatment_recommendations_keys)
  have cases: "map_of (get_treatment_recommendations E s ms ct uid) (u ''similar_cases'') = Some (similar_cases E ms)
    \<and> (\<exists>cs. similar_cases E ms = JArr cs \<and> length cs = min 3 (length ms) \<and> 1 \<le> length cs)"
    if ne: "ms \<noteq> []"
  proof -
    obtain cs where cs: "similar_cases E ms = JArr cs" by (simp add: similar_cases_def)
    from similar_cases_length [OF cs] ne have "length cs = min 3 (length ms) \<and> 1 \<le> length cs"
      by (cases ms) auto
    with cs have b: "\<exists>cs. similar_cases E ms = JArr cs \<and> length cs = min 3 (length ms) \<and> 1 \<le> length cs"
      by blast
    from get_treatment_recommendations_similar_cases [OF ne, of E s ct uid] b
    show ?thesis by (rule conjI)
  qed
  have used: "dict_contains (get_treatment_recommendations E s ms ct uid) (u ''model_used'')"
    if "ms \<noteq> [] \<and> generator_reply E s ms ct uid \<noteq> None"
  proof -
    from that obtain t where t: "generator_reply E s ms ct uid = Some t" and ne: "ms \<noteq> []" by auto
    from get_treatment_recommendations_reply [OF t] ne show ?thesis
      by (auto simp: dict_contains_def map_of_dict_set)
  qed
  have nore: "\<forall>k\<in>set advice_fields \<union> {u ''llm_analysis''}.
         field_nonempty (get_treatment_recommendations E s ms ct uid) k"
    if none: "generator_reply E s ms ct uid = None"
  proof (cases ms)
    case Nil
    with get_treatment_recommendations_no_reply [OF none] no_match_fallback_fields
    show ?thesis by simp
  next
    case (Cons m rest)
    with get_treatment_recommendations_no_reply [OF none]
      get_fallback_recommendations_fields [of E "py_or ct (crop m)" "condition m" ms]
    show ?thesis by simp
  qed
  have lines: "\<forall>k\<in>set advice_fields. field_nonempty (get_treatment_recommendations E s ms ct uid) k"
    if "generator_reply E s ms ct uid = Some t \<and> parsed_json E t = None" for t
    using that get_treatment_recommendations_text_path by blast
  have json: "(\<forall>k\<in>set advice_fields \<union> {u ''llm_analysis''}. \<not> dict_contains d k \<longrightarrow>
         field_nonempty (get_treatment_recommendations E s ms ct uid) k)
    \<and> (\<forall>k. dict_contains d k \<and> (ms = [] \<or> (k \<noteq> u ''similar_cases'' \<and> k \<noteq> u ''model_used'')) \<longrightarrow>
         map_of (get_treatment_recommendations E s ms ct uid) k = map_of d k)"
    if "generator_reply E s ms ct uid = Some t \<and> parsed_json E t = Some d" for t d
    using that get_treatment_recommendations_json_path [of E s ms ct uid t d] by blast
  from keys cases used nore lines json show ?thesis by blast
qed

lemmas synth_eval = get_treatment_recommendations_def generator_reply_def successful_response_def
  raising_chat_def failing_chat_def prose_chat_def json_chat_def demo_service_def py_or_def Let_def

text \<open>The theorem at one match answered in prose by the generator, at the same match
  with no generator, and at the same match answered with a JSON object that holds
  \<^verbatim>\<open>urgency\<close> alone.\<close>

theorem get_treatment_recommendations_fields_witness:
  "generator_reply demo_externals ((demo_service [])\<lparr>llm := Some prose_chat\<rparr>) [demo_match] None None
     = Some (u ''Treatment:\<newline>- Apply fungicide weekly\<newline>- Remove spotted leaves'')
 \<and> parsed_json demo_externals (u ''Treatment:\<newline>- Apply fungicide weekly\<newline>- Remove spotted leaves'') = None
 \<and> field_nonempty
      (get_treatment_recommendations demo_externals ((demo_service [])\<lparr>llm := Some prose_chat\<rparr>) [demo_match] None None)
      (u ''recommendations'')
 \<and> field_nonempty
      (get_treatment_recommendations demo_externals ((demo_service [])\<lparr>llm := Some prose_chat\<rparr>) [demo_match] None None)
      (u ''fertilizer_advice'')
 \<and> dict_contains
      (get_treatment_recommendations demo_externals ((demo_service [])\<lparr>llm := Some prose_chat\<rparr>) [demo_match] None None)
      (u ''model_used'')
 \<and> generator_reply demo_externals (demo_service []) [demo_match] None None = None
 \<and> field_nonempty (get_treatment_recommendations demo_externals (demo_service []) [demo_match] None None)
      (u ''primary_diagnosis'')
 \<and> field_nonempty (get_treatment_recommendations demo_externals (demo_service []) [demo_match] None None)
      (u ''llm_analysis'')
 \<and> (\<exists>cs. map_of (get_treatment_recommendations demo_externals (demo_service []) [demo_match] None None)
        (u ''similar_cases'') = Some (JArr cs) \<and> length cs = 1)
 \<and> generator_reply demo_externals ((demo_service [])\<lparr>llm := Some json_chat\<rparr>) [demo_match] None None
     = Some (u ''Here: {\"urgency\": \"high\"} ok'')
 \<and> parsed_json demo_externals (u ''Here: {\"urgency\": \"high\"} ok'') = Some [(u ''urgency'', JStr (u ''high''))]
 \<and> map_of
      (get_treatment_recommendations demo_externals ((demo_service [])\<lparr>llm := Some json_chat\<rparr>) [demo_match] None None)
      (u ''urgency'') = Some (JStr (u ''high''))
 \<and> field_nonempty
      (get_treatment_recommendations demo_externals ((demo_service [])\<lparr>llm := Some json_chat\<rparr>) [demo_match] None None)
      (u ''recommendations'')"
proof -
  let ?t = "u ''Treatment:\<newline>- Apply fungicide weekly\<newline>- Remove spotted leaves''"
  let ?s = "(demo_service [])\<lparr>llm := Some prose_chat\<rparr>"
  let ?t2 = "u ''Here: {\"urgency\": \"high\"} ok''"
  let ?s2 = "(demo_service [])\<lparr>llm := Some json_chat\<rparr>"
  let ?d = "[(u ''urgency'', JStr (u ''high''))]"
  note P = get_treatment_recommendations_fields [of demo_externals ?s "[demo_match]" None None]
  note N = get_treatment_recommendations_fields [of demo_externals "demo_service []" "[demo_match]" None None]
  note J = get_treatment_recommendations_fields [of demo_externals ?s2 "[demo_match]" None None]
  have g: "generator_reply demo_externals ?s [demo_match] None None = Some ?t"
    by (simp add: synth_eval)
  have j: "parsed_json demo_externals ?t = None"
    by (simp add: parsed_json_def json_block_def Let_def u_Cons u_Nil)
  have n: "generator_reply demo_externals (demo_service []) [demo_match] None None = None"
    by (simp add: synth_eval)
  have m: "u ''recommendations'' \<in> set advice_fields" "u ''fertilizer_advice'' \<in> set advice_fields"
    "u ''primary_diagnosis'' \<in> set advice_fields"
    by (simp_all add: advice_fields_def)
  from P g j have p1: "\<forall>k\<in>set advice_fields. field_nonempty
        (get_treatment_recommendations demo_externals ?s [demo_match] None None) k"
    by blast
  from P g have p2: "dict_contains (get_treatment_recommendations demo_externals ?s [demo_match] None None)
      (u ''model_used'')"
    by simp
  from N n have n1: "\<forall>k\<in>set advice_fields \<union> {u ''llm_analysis''}. field_nonempty
        (get_treatment_recommendations demo_externals (demo_service []) [demo_match] None None) k"
    by blast
  from N have n2: "\<exists>cs. map_of (get_treatment_recommendations demo_externals (demo_service []) [demo_match] None None)
        (u ''similar_cases'') = Some (JArr cs) \<and> length cs = 1"
    by auto
  have g2: "generator_reply demo_externals ?s2 [demo_match] None None = Some ?t2"
    by (simp add: synth_eval)
  have blk: "json_block ?t2 = Some (u ''{\"urgency\": \"high\"}'')"
    by (simp add: json_block_def Let_def u_Cons u_Nil)
  have lds: "json_loads demo_externals (u ''{\"urgency\": \"high\"}'') = Inr ?d"
    by (simp add: demo_externals_def braces_only_loads_def)
  have j2: "parsed_json demo_externals ?t2 = Some ?d"
    by (simp add: parsed_json_def blk lds)
  have k1: "dict_contains ?d (u ''urgency'')" "u ''urgency'' \<noteq> u ''similar_cases''"
    "u ''urgency'' \<noteq> u ''model_used''"
    by (simp_all add: dict_contains_def)
  have k2: "\<not> dict_contains ?d (u ''recommendations'')"
    "u ''recommendations'' \<in> set advice_fields \<union> {u ''llm_analysis''}"
    by (simp_all add: dict_contains_def advice_fields_def)
  from J g2 j2 have J1: "\<forall>k. dict_contains ?d k \<and> ([demo_match] = [] \<or> (k \<noteq> u ''similar_cases'' \<and> k \<noteq> u ''model_used'')) \<longrightarrow>
         map_of (get_treatment_recommendations demo_externals ?s2 [demo_match] None None) k = map_of ?d k"
    by blast
  from J g2 j2 have J2: "\<forall>k\<in>set advice_fields \<union> {u ''llm_analysis''}. \<not> dict_contains ?d k \<longrightarrow>
         field_nonempty (get_treatment_recommendations demo_externals ?s2 [demo_match] None None) k"
    by blast
  from J1 k1 have "map_of (get_treatment_recommendations demo_externals ?s2 [demo_match] None None) (u ''urgency'')
      = map_of ?d (u ''urgency'')"
    by blast
  then have q1: "map_of (get_treatment_recommendations demo_externals ?s2 [demo_match] None None) (u ''urgency'')
      = Some (JStr (u ''high''))"
    by simp
  from J2 k2 have q2: "field_nonempty (get_treatment_recommendations demo_externals ?s2 [demo_match] None None)
      (u ''recommendations'')"
    by blast
  from p1 m have r1: "field_nonempty (get_treatment_recommendations demo_externals ?s [demo_match] None None)
      (u ''recommendations'')"
    and r2: "field_nonempty (get_treatment_recommendations demo_externals ?s [demo_match] None None)
      (u ''fertilizer_advice'')"
    by blast+
  from n1 m have r3: "field_nonempty (get_treatment_recommendations demo_externals (demo_service []) [demo_match] None None)
      (u ''primary_diagnosis'')"
    and r4: "field_nonempty (get_treatment_recommendations demo_externals (demo_service []) [demo_match] None None)
      (u ''llm_analysis'')"
    by blast+
  from g j r1 r2 p2 n r3 r4 n2 g2 j2 q1 q2 show ?thesis by (simp only: simp_thms)
qed

text \<open>The claim as stated fails. With no evidence and no generator the record has neither
  \<^verbatim>\<open>similar_cases\<close> nor \<^verbatim>\<open>model_used\<close>, and with evidence and no generator it has no
  \<^verbatim>\<open>model_used\<close>. And when the generator answers \<^verbatim>\<open>{"recommendations": []}\<close> to a match, the
  record holds that empty list under \<^verbatim>\<open>recommendations\<close>.\<close>

theorem get_treatment_recommendations_counterexample:
  "\<not> dict_contains (get_treatment_recommendations demo_externals (demo_service []) [] None None) (u ''similar_cases'')
 \<and> \<not> dict_contains (get_treatment_recommendations demo_externals (demo_service []) [] None None) (u ''model_used'')
 \<and> \<not> dict_contains (get_treatment_recommendations demo_externals (demo_service []) [demo_match] None None) (u ''model_used'')
 \<and> map_of (get_treatment_recommendations demo_externals ((demo_service [])\<lparr>llm := Some empty_list_chat\<rparr>)
        [demo_match] None None) (u ''recommendations'') = Some (JArr [])
 \<and> \<not> field_nonempty (get_treatment_recommendations demo_externals ((demo_service [])\<lparr>llm := Some empty_list_chat\<rparr>)
        [demo_match] None None) (u ''recommendations'')"
proof -
  let ?t = "u ''{\"recommendations\": []}''"
  let ?s = "(demo_service [])\<lparr>llm := Some empty_list_chat\<rparr>"
  have a: "\<not> dict_contains (get_treatment_recommendations demo_externals (demo_service []) [] None None) (u ''similar_cases'')
     \<and> \<not> dict_contains (get_treatment_recommendations demo_externals (demo_service []) [] None None) (u ''model_used'')
     \<and> \<not> dict_contains (get_treatment_recommendations demo_externals (demo_service []) [demo_match] None None) (u ''model_used'')"
    by (simp add: synth_eval dict_contains_def no_match_fallback_def get_fallback_recommendations_def)
  have blk: "json_block ?t = Some ?t"
    by (simp add: json_block_def Let_def u_Cons u_Nil)
  have lds: "json_loads demo_externals ?t = Inr [(u ''recommendations'', JArr [])]"
    by (simp add: demo_externals_def braces_only_loads_def)
  have p: "parse_llm_recommendations demo_externals ?t = fill_missing [(u ''recommendations'', JArr [])] ?t"
    by (simp add: parse_llm_recommendations_def parsed_json_def blk lds)
  have g: "get_treatment_recommendations demo_externals ?s [demo_match] None None
      = dict_set (dict_set (parse_llm_recommendations demo_externals ?t) (u ''similar_cases'')
            (similar_cases demo_externals [demo_match]))
          (u ''model_used'') (JStr (u ''gemini-2.0-flash''))"
    by (simp add: synth_eval empty_list_chat_def)
  have r: "map_of (get_treatment_recommendations demo_externals ?s [demo_match] None None) (u ''recommendations'')
      = Some (JArr [])"
    unfolding g p by (simp add: map_of_dict_set map_of_fill_missing)
  then have e: "\<not> field_nonempty (get_treatment_recommendations demo_externals ?s [demo_match] None None)
      (u ''recommendations'')"
    by (simp add: field_nonempty_def nonempty_json_def)
  from a r e show ?thesis by (simp only: simp_thms)
qed

text \<open>
  C4. When every call of the generator raises or returns an unsuccessful reply, the
  synthesizer returns the record it returns with no generator at all: the hard-coded
  no-match record for an empty evidence list, \<^verbatim>\<open>_get_fallback_recommendations\<close> of the
  crop, the condition and the matches otherwise. The exception is a value of the model
  that the \<^verbatim>\<open>except\<close> clause consumes; the function has no other raising path on a list of
  retrieval results. The record depends on the evidence and the crop hint only, so two
  failing generators, or two calls, give the same record.
\<close>

theorem get_treatment_recommendations_generator_failure:
  assumes "\<forall>p uu c. (\<exists>e. chat p uu c = Inl e) \<or> (\<exists>r. chat p uu c = Inr r \<and> \<not> success r)"
    and "\<forall>p uu c. (\<exists>e. chat' p uu c = Inl e) \<or> (\<exists>r. chat' p uu c = Inr r \<and> \<not> success r)"
  shows "get_treatment_recommendations E (s\<lparr>llm := Some chat\<rparr>) ms ct uid =
           (case ms of [] \<Rightarrow> no_match_fallback
            | m # _ \<Rightarrow> get_fallback_recommendations E (py_or ct (crop m)) (condition m) ms)
       \<and> get_treatment_recommendations E (s\<lparr>llm := Some chat\<rparr>) ms ct uid =
           get_treatment_recommendations E (s\<lparr>llm := Some chat'\<rparr>) ms ct uid
       \<and> get_treatment_recommendations E (s\<lparr>llm := Some chat\<rparr>) ms ct uid =
           get_treatment_recommendations E (s\<lparr>llm := None\<rparr>) ms ct uid"
proof -
  have fail: "successful_response (f p uu c) = None"
    if "\<forall>p uu c. (\<exists>e. f p uu c = Inl e) \<or> (\<exists>r. f p uu c = Inr r \<and> \<not> success r)"
    for f :: llm_chat and p uu c
    using that [rule_format, of p uu c] by (auto simp: successful_response_def)
  have none: "generator_reply E (s\<lparr>llm := Some f\<rparr>) ms ct uid = None"
    if "\<forall>p uu c. (\<exists>e. f p uu c = Inl e) \<or> (\<exists>r. f p uu c = Inr r \<and> \<not> success r)"
    for f :: llm_chat
    using fail [OF that] by (simp add: generator_reply_def split: list.splits)
  have n0: "generator_reply E (s\<lparr>llm := None\<rparr>) ms ct uid = None"
    by (simp add: generator_reply_def)
  from get_treatment_recommendations_no_reply [OF none [OF assms(1)]]
    get_treatment_recommendations_no_reply [OF none [OF assms(2)]]
    get_treatment_recommendations_no_reply [OF n0]
  show ?thesis by simp
qed

text \<open>A generator that always raises and one that always reports failure, on one match:
  both give the deterministic fallback with its two-decimal similarity.\<close>

theorem get_treatment_recommendations_generator_failure_witness:
  "(\<forall>p uu c. (\<exists>e. raising_chat p uu c = Inl e) \<or> (\<exists>r. raising_chat p uu c = Inr r \<and> \<not> success r))
 \<and> (\<forall>p uu c. (\<exists>e. failing_chat p uu c = Inl e) \<or> (\<exists>r. failing_chat p uu c = Inr r \<and> \<not> success r))
 \<and> get_treatment_recommendations demo_externals ((demo_service [])\<lparr>llm := Some raising_chat\<rparr>) [demo_match] None None
     = get_fallback_recommendations demo_externals (u ''Tomato'') (u ''Leaf Mold'') [demo_match]
 \<and> get_treatment_recommendations demo_externals ((demo_service [])\<lparr>llm := Some raising_chat\<rparr>) [demo_match] None None
     = get_treatment_recommendations demo_externals ((demo_service [])\<lparr>llm := Some failing_chat\<rparr>) [demo_match] None None
 \<and> map_of (get_fallback_recommendations demo_externals (u ''Tomato'') (u ''Leaf Mold'') [demo_match]) (u ''similar_cases'')
     = Some (JArr [JObj [(u ''crop'', JStr (u ''Tomato'')), (u ''condition'', JStr (u ''Leaf Mold'')),
                        (u ''similarity'', JStr (u ''0.86''))]])"
proof -
  have a: "\<forall>p uu c. (\<exists>e. raising_chat p uu c = Inl e) \<or> (\<exists>r. raising_chat p uu c = Inr r \<and> \<not> success r)"
    by (simp add: raising_chat_def)
  have b: "\<forall>p uu c. (\<exists>e. failing_chat p uu c = Inl e) \<or> (\<exists>r. failing_chat p uu c = Inr r \<and> \<not> success r)"
    by (simp add: failing_chat_def)
  note T = get_treatment_recommendations_generator_failure
    [OF a b, of demo_externals "demo_service []" "[demo_match]" None None]
  have c: "py_or None (crop demo_match) = u ''Tomato''" "condition demo_match = u ''Leaf Mold''"
    by (simp_all add: py_or_def demo_match_def)
  from T c have r1: "get_treatment_recommendations demo_externals ((demo_service [])\<lparr>llm := Some raising_chat\<rparr>)
      [demo_match] None None
     = get_fallback_recommendations demo_externals (u ''Tomato'') (u ''Leaf Mold'') [demo_match]"
    by simp
  from T have r2: "get_treatment_recommendations demo_externals ((demo_service [])\<lparr>llm := Some raising_chat\<rparr>)
      [demo_match] None None
     = get_treatment_recommendations demo_externals ((demo_service [])\<lparr>llm := Some failing_chat\<rparr>) [demo_match] None None"
    by blast
  have r3: "map_of (get_fallback_recommendations demo_externals (u ''Tomato'') (u ''Leaf Mold'') [demo_match]) (u ''similar_cases'')
     = Some (JArr [JObj [(u ''crop'', JStr (u ''Tomato'')), (u ''condition'', JStr (u ''Leaf Mold'')),
                        (u ''similarity'', JStr (u ''0.86''))]])"
    by (simp add: get_fallback_recommendations_def similar_cases_def demo_match_def demo_externals_def
          two_decimals_def digit_str_def Let_def u_Cons u_Nil)
  from a b r1 r2 r3 show ?thesis by blast
qed

section \<open>Indexer: folder names\<close>

lemmas parse_eval = parse_class_def trim_name_def finish_class_def canon_crop_def norm_text_def
  banana_prefix_def banana_match_def good_ill_prefix_def good_ill_match_def strip_leaf_def
  or_unknown_def literal_at_def dot_plus_end_def is_sep_def norm_default_crop_def healthy_words_def
  CROP_ALIASES_def DISEASE_DEFAULT_CROP_def dict_get_def ci_ascii_def demo_externals_def Let_def






section \<open>Indexer: rows and vectors\<close>

lemma u_append: "u (a @ b) = u a @ u b"
  by (simp add: u_def)

lemma class_rows_foldl:
  "foldl (\<lambda>acc img. if str_lower E (path_suffix img) \<notin> set IMAGE_SUFFIXES then acc
                      else acc @ [make_entry E d img (length acc)]) rows imgs
   = rows @ map (\<lambda>(i, img). make_entry E d img i)
              (enumerate (length rows) (filter (\<lambda>n. str_lower E (path_suffix n) \<in> set IMAGE_SUFFIXES) imgs))"
proof (induction imgs arbitrary: rows)
  case Nil
  then show ?case by simp
next
  case (Cons img imgs)
  show ?case
  proof (cases "str_lower E (path_suffix img) \<in> set IMAGE_SUFFIXES")
    case True
    with Cons.IH [of "rows @ [make_entry E d img (length rows)]"] show ?thesis by simp
  next
    case False
    with Cons.IH [of rows] show ?thesis by simp
  qed
qed

lemma class_rows_eq:
  "class_rows E rows d
   = rows @ map (\<lambda>(i, img). make_entry E (dir_name d) img i)
              (enumerate (length rows) (filter (is_image E) (listing d)))"
proof -
  have "filter (\<lambda>n. str_lower E (path_suffix n) \<in> set IMAGE_SUFFIXES) (filter (\<lambda>n. 46 \<in> set n) (listing d))
      = filter (is_image E) (listing d)"
    by (auto simp: is_image_def intro: filter_cong)
  then show ?thesis
    by (simp add: class_rows_def class_rows_foldl)
qed

lemma enumerate_map_Pair:
  "map (\<lambda>(i, img). f a img i) (enumerate n xs) = map (\<lambda>(i, d, img). f d img i) (enumerate n (map (Pair a) xs))"
  by (induction xs arbitrary: n) auto

lemma build_docs_foldl:
  "foldl (class_rows E) rows ds
   = rows @ map (\<lambda>(i, d, img). make_entry E d img i)
              (enumerate (length rows)
                 (concat (map (\<lambda>d. map (Pair (dir_name d)) (filter (is_image E) (listing d))) ds)))"
proof (induction ds arbitrary: rows)
  case Nil
  then show ?case by simp
next
  case (Cons d ds)
  let ?here = "map (Pair (dir_name d)) (filter (is_image E) (listing d))"
  have step: "class_rows E rows d
      = rows @ map (\<lambda>(i, d, img). make_entry E d img i) (enumerate (length rows) ?here)"
    by (simp add: class_rows_eq enumerate_map_Pair [of "make_entry E"])
  have len: "length (class_rows E rows d) = length rows + length ?here"
    by (simp add: step)
  show ?case
    by (simp add: Cons.IH len enumerate_append_eq) (simp add: step)
qed

lemma build_docs_eq:
  "build_docs E fs = map (\<lambda>(i, d, img). make_entry E d img i) (enumerate 0 (image_files E fs))"
  by (simp add: build_docs_def image_files_def build_docs_foldl)

lemma build_docs_nth:
  assumes "i < length (image_files E fs)"
  shows "build_docs E fs ! i = make_entry E (fst (image_files E fs ! i)) (snd (image_files E fs ! i)) i"
  using assms by (simp add: build_docs_eq nth_enumerate_eq split: prod.splits)

lemma make_entry_fields:
  "row_id (make_entry E d img n) = n
 \<and> image_path (make_entry E d img n) = DATA_DIR @ [47] @ d @ [47] @ img
 \<and> (crop (make_entry E d img n), condition (make_entry E d img n),
      is_healthy (make_entry E d img n), class_name (make_entry E d img n)) = parse_class E d
 \<and> text_field (make_entry E d img n)
     = descriptive_text (crop (make_entry E d img n)) (condition (make_entry E d img n))
         (class_name (make_entry E d img n)) (is_healthy (make_entry E d img n))"
  by (simp add: make_entry_def split: prod.splits)

lemma descriptive_text_template:
  "descriptive_text c cnd cn h
     = u ''Crop: '' @ c @ u ''. Condition: '' @ cnd @ u ''. This is a leaf image labeled '' @ [39] @ cn @ [39]
       @ u ''. Healthy: '' @ (if h then u ''yes'' else u ''no'') @ u ''.''"
proof -
  have "u ''. This is a leaf image labeled '' = u ''. '' @ u ''This is a leaf image labeled ''"
    "u ''. Healthy: '' = u ''. '' @ u ''Healthy: ''"
    by (simp_all add: u_append [symmetric])
  then show ?thesis by (simp add: descriptive_text_def)
qed

lemma encode_all_append:
  "encode_all f (xs @ ys)
     = bind_err (encode_all f xs) (\<lambda>a. bind_err (encode_all f ys) (\<lambda>b. Inr (a @ b)))"
proof (induction xs)
  case Nil
  show ?case by (cases "encode_all f ys") simp_all
next
  case (Cons x xs)
  show ?case
    by (cases "f x"; cases "encode_all f xs"; cases "encode_all f ys") (simp_all add: Cons.IH)
qed

lemma encode_all_chunks:
  assumes "0 < n" and "encode_all (encode_all f) (chunks n xs) = Inr ys"
  shows "encode_all f xs = Inr (concat ys)"
  using assms
proof (induction n xs arbitrary: ys rule: chunks.induct)
  case (1 n xs)
  show ?case
  proof (cases "xs = []")
    case True
    with "1.prems" show ?thesis by (simp add: chunks.simps)
  next
    case False
    with "1.prems" obtain y ys' where
      y: "encode_all f (take n xs) = Inr y" and ys': "encode_all (encode_all f) (chunks n (drop n xs)) = Inr ys'"
      and ys: "ys = y # ys'"
      by (subst (asm) chunks.simps) (auto simp: bind_err_Inr_iff)
    from "1.IH" [OF _ "1.prems"(1) ys'] False "1.prems"(1)
    have rest: "encode_all f (drop n xs) = Inr (concat ys')" by simp
    have "encode_all f xs = encode_all f (take n xs @ drop n xs)" by simp
    also have "\<dots> = Inr (y @ concat ys')"
      by (simp only: encode_all_append y rest bind_err_simps)
    finally show ?thesis by (simp add: ys)
  qed
qed

lemma encode_all_nth:
  assumes "encode_all f xs = Inr ys"
  shows "length ys = length xs \<and> (\<forall>i<length xs. f (xs ! i) = Inr (ys ! i))"
  using assms
proof (induction xs arbitrary: ys)
  case Nil
  then show ?case by simp
next
  case (Cons x xs)
  from Cons.prems obtain y ys' where y: "f x = Inr y" and ys': "encode_all f xs = Inr ys'"
    and ys: "ys = y # ys'"
    by (auto simp: bind_err_Inr_iff)
  from Cons.IH [OF ys'] y ys show ?case
    by (auto simp: nth_Cons split: nat.splits)
qed

text \<open>The index holds one vector per row, in row order: the encoding of the row's text by
  the given model with normalisation, cast to float32.\<close>

lemma build_faiss_vectors:
  assumes "build_faiss E rows mid bs = Inr ix"
  shows "length (vectors ix) = length rows
       \<and> (\<forall>i<length rows.
            bind_err (st_encode E mid True (text_field (rows ! i))) (\<lambda>v. Inr (astype_float32 E v))
              = Inr (vectors ix ! i))"
proof -
  from assms have pos: "0 < bs"
    by (cases "bs < 0") (auto simp: build_faiss_def split: if_splits)
  with assms obtain embs where
    e: "encode_all (encode_all (st_encode E mid True)) (chunks (nat bs) (map text_field rows)) = Inr embs"
    and ix: "ix = \<lparr> vectors = map (astype_float32 E) (concat embs) \<rparr>"
    by (auto simp: build_faiss_def bind_err_Inr_iff split: if_splits)
  from pos have "0 < nat bs" by simp
  from encode_all_chunks [OF this e]
  have all: "encode_all (st_encode E mid True) (map text_field rows) = Inr (concat embs)" .
  from encode_all_nth [OF all] ix show ?thesis by simp
qed

lemmas index_eval = build_docs_def class_rows_def make_entry_def image_files_def is_image_def
  path_suffix_def IMAGE_SUFFIXES_def DATA_DIR_def demo_corpus_def descriptive_text_def


lemma demo_image_files:
  "image_files demo_externals demo_corpus
     = [(u ''Brown spot'', u ''c.jpeg''), (u ''Tomato___Leaf_Mold'', u ''a.JPG''),
        (u ''Tomato___Leaf_Mold'', u ''b.png'')]"
  by (simp add: index_eval demo_externals_def str_eval)

lemma demo_docs:
  "build_docs demo_externals demo_corpus
     = [make_entry demo_externals (u ''Brown spot'') (u ''c.jpeg'') 0,
        make_entry demo_externals (u ''Tomato___Leaf_Mold'') (u ''a.JPG'') 1,
        make_entry demo_externals (u ''Tomato___Leaf_Mold'') (u ''b.png'') 2]"
  by (simp add: build_docs_eq demo_image_files numeral_2_eq_2)

lemma first_letter_entry:
  "first_letter_encode mid nrm (text_field (make_entry E d img n)) = Inr [0, 1]"
  by (simp add: make_entry_def descriptive_text_def first_letter_encode_def u_Cons split: prod.splits)

lemma demo_encoders:
  "st_encode demo_externals = first_letter_encode"
  "astype_float32 demo_externals = (\<lambda>v. v)"
  by (simp_all add: demo_externals_def)

lemma demo_index:
  "build_faiss demo_externals (build_docs demo_externals demo_corpus) MODEL_ID 2
     = Inr \<lparr> vectors = [[0, 1], [0, 1], [0, 1]] \<rparr>"
  by (simp add: build_faiss_def demo_docs chunks.simps demo_encoders first_letter_entry)

lemma demo_index_main:
  "index_main demo_externals demo_corpus
     = (build_docs demo_externals demo_corpus, Inr \<lparr> vectors = [[0, 1], [0, 1], [0, 1]] \<rparr>)"
  by (simp add: index_main_def build_faiss_def demo_docs chunks.simps demo_encoders first_letter_entry)

text \<open>
  C9. \<^verbatim>\<open>build_docs\<close> emits one row per image file (a name matched by \<^verbatim>\<open>*.*\<close> whose lower-cased
  suffix is .jpg, .jpeg or .png) of the class folders in sorted order; the row at offset
  \<open>i\<close> has id \<open>i\<close>, the path of the \<open>i\<close>-th image file, the crop, condition, health flag and
  class name that \<^verbatim>\<open>parse_class\<close> gives for its folder, and the text of the template. When
  \<^verbatim>\<open>build_faiss\<close> returns an index for these rows, it holds as many vectors as there are
  rows and the vector at position \<open>i\<close> is the encoding of the text of row \<open>i\<close>.
\<close>

theorem build_docs_rows_aligned:
  "length (build_docs E fs) = length (image_files E fs)
 \<and> (\<forall>i<length (build_docs E fs).
       row_id (build_docs E fs ! i) = i
     \<and> image_path (build_docs E fs ! i)
         = DATA_DIR @ [47] @ fst (image_files E fs ! i) @ [47] @ snd (image_files E fs ! i)
     \<and> (crop (build_docs E fs ! i), condition (build_docs E fs ! i),
          is_healthy (build_docs E fs ! i), class_name (build_docs E fs ! i))
         = parse_class E (fst (image_files E fs ! i))
     \<and> text_field (build_docs E fs ! i)
         = u ''Crop: '' @ crop (build_docs E fs ! i) @ u ''. Condition: '' @ condition (build_docs E fs ! i)
           @ u ''. This is a leaf image labeled '' @ [39] @ class_name (build_docs E fs ! i) @ [39]
           @ u ''. Healthy: '' @ (if is_healthy (build_docs E fs ! i) then u ''yes'' else u ''no'') @ u ''.'')
 \<and> (\<forall>ix. build_faiss E (build_docs E fs) mid bs = Inr ix \<longrightarrow>
       length (vectors ix) = length (build_docs E fs)
     \<and> (\<forall>i<length (build_docs E fs).
           bind_err (st_encode E mid True (text_field (build_docs E fs ! i))) (\<lambda>v. Inr (astype_float32 E v))
             = Inr (vectors ix ! i)))"
proof (intro conjI allI impI)
  show len: "length (build_docs E fs) = length (image_files E fs)"
    by (simp add: build_docs_eq)
  fix i assume "i < length (build_docs E fs)"
  with len have i: "i < length (image_files E fs)" by simp
  note nth = build_docs_nth [OF i]
  note mk = make_entry_fields [of E "fst (image_files E fs ! i)" "snd (image_files E fs ! i)" i]
  show "row_id (build_docs E fs ! i) = i"
    unfolding nth using mk by blast
  show "image_path (build_docs E fs ! i)
         = DATA_DIR @ [47] @ fst (image_files E fs ! i) @ [47] @ snd (image_files E fs ! i)"
    unfolding nth using mk by blast
  show "(crop (build_docs E fs ! i), condition (build_docs E fs ! i),
          is_healthy (build_docs E fs ! i), class_name (build_docs E fs ! i))
         = parse_class E (fst (image_files E fs ! i))"
    unfolding nth using mk by blast
  show "text_field (build_docs E fs ! i)
         = u ''Crop: '' @ crop (build_docs E fs ! i) @ u ''. Condition: '' @ condition (build_docs E fs ! i)
           @ u ''. This is a leaf image labeled '' @ [39] @ class_name (build_docs E fs ! i) @ [39]
           @ u ''. Healthy: '' @ (if is_healthy (build_docs E fs ! i) then u ''yes'' else u ''no'') @ u ''.''"
    unfolding nth using mk descriptive_text_template by metis
next
  fix ix assume b: "build_faiss E (build_docs E fs) mid bs = Inr ix"
  from build_faiss_vectors [OF b] show "length (vectors ix) = length (build_docs E fs)"
    by blast
  fix i assume "i < length (build_docs E fs)"
  with build_faiss_vectors [OF b]
  show "bind_err (st_encode E mid True (text_field (build_docs E fs ! i))) (\<lambda>v. Inr (astype_float32 E v))
             = Inr (vectors ix ! i)"
    by blast
qed

text \<open>A corpus of two class folders and a file: three images in all, the one at offset 1
  being the upper-case a.JPG of the tomato folder; batches of two.\<close>

theorem build_docs_rows_aligned_witness:
  "length (build_docs demo_externals demo_corpus) = 3
 \<and> row_id (build_docs demo_externals demo_corpus ! 1) = 1
 \<and> image_path (build_docs demo_externals demo_corpus ! 1) = u ''Plant_Disease_Dataset/Tomato___Leaf_Mold/a.JPG''
 \<and> crop (build_docs demo_externals demo_corpus ! 1) = u ''Tomato''
 \<and> condition (build_docs demo_externals demo_corpus ! 1) = u ''Leaf Mold''
 \<and> \<not> is_healthy (build_docs demo_externals demo_corpus ! 1)
 \<and> text_field (build_docs demo_externals demo_corpus ! 1)
     = u ''Crop: Tomato. Condition: Leaf Mold. This is a leaf image labeled '' @ [39]
       @ u ''Tomato - Leaf Mold'' @ [39] @ u ''. Healthy: no.''
 \<and> build_faiss demo_externals (build_docs demo_externals demo_corpus) MODEL_ID 2
     = Inr \<lparr> vectors = [[0, 1], [0, 1], [0, 1]] \<rparr>
 \<and> bind_err (st_encode demo_externals MODEL_ID True (text_field (build_docs demo_externals demo_corpus ! 1)))
      (\<lambda>v. Inr (astype_float32 demo_externals v))
     = Inr (vectors \<lparr> vectors = [[0, 1], [0, 1], [0, 1]] \<rparr> ! 1)"
proof -
  let ?rows = "build_docs demo_externals demo_corpus"
  let ?ix = "\<lparr> vectors = [[0, 1], [0, 1], [0, 1 :: real]] \<rparr>"
  note T = build_docs_rows_aligned [of demo_externals demo_corpus MODEL_ID 2]
  from T have len: "length ?rows = 3" by (simp add: demo_image_files)
  then have one: "1 < length ?rows" by simp
  have pc: "parse_class demo_externals (u ''Tomato___Leaf_Mold'')
     = (u ''Tomato'', u ''Leaf Mold'', False, u ''Tomato - Leaf Mold'')"
    by (simp add: parse_eval str_eval)
  have file1: "image_files demo_externals demo_corpus ! 1 = (u ''Tomato___Leaf_Mold'', u ''a.JPG'')"
    by (simp add: demo_image_files)
  from T one have id1: "row_id (?rows ! 1) = 1" by blast
  from T one have "image_path (?rows ! 1)
      = DATA_DIR @ [47] @ fst (image_files demo_externals demo_corpus ! 1) @ [47]
        @ snd (image_files demo_externals demo_corpus ! 1)"
    by blast
  then have path: "image_path (?rows ! 1) = u ''Plant_Disease_Dataset/Tomato___Leaf_Mold/a.JPG''"
    by (simp only: file1 fst_conv snd_conv) (simp add: DATA_DIR_def u_Cons u_Nil)
  from T one have "(crop (?rows ! 1), condition (?rows ! 1), is_healthy (?rows ! 1), class_name (?rows ! 1))
      = parse_class demo_externals (fst (image_files demo_externals demo_corpus ! 1))"
    by blast
  then have fields: "crop (?rows ! 1) = u ''Tomato''" "condition (?rows ! 1) = u ''Leaf Mold''"
    "\<not> is_healthy (?rows ! 1)" "class_name (?rows ! 1) = u ''Tomato - Leaf Mold''"
    by (simp_all only: file1 fst_conv pc prod.inject simp_thms)
  from T one have t0: "text_field (?rows ! 1)
         = u ''Crop: '' @ crop (?rows ! 1) @ u ''. Condition: '' @ condition (?rows ! 1)
           @ u ''. This is a leaf image labeled '' @ [39] @ class_name (?rows ! 1) @ [39]
           @ u ''. Healthy: '' @ (if is_healthy (?rows ! 1) then u ''yes'' else u ''no'') @ u ''.''"
    by blast
  have t1: "u ''Crop: '' @ u ''Tomato'' @ u ''. Condition: '' @ u ''Leaf Mold''
           @ u ''. This is a leaf image labeled '' @ [39] @ u ''Tomato - Leaf Mold'' @ [39]
           @ u ''. Healthy: '' @ u ''no'' @ u ''.''
     = u ''Crop: Tomato. Condition: Leaf Mold. This is a leaf image labeled '' @ [39]
       @ u ''Tomato - Leaf Mold'' @ [39] @ u ''. Healthy: no.''"
    by (simp add: u_Cons u_Nil)
  have tx: "text_field (?rows ! 1)
     = u ''Crop: Tomato. Condition: Leaf Mold. This is a leaf image labeled '' @ [39]
       @ u ''Tomato - Leaf Mold'' @ [39] @ u ''. Healthy: no.''"
    by (simp only: t0 fields if_False t1)
  note bf = demo_index
  from T bf one have enc: "bind_err (st_encode demo_externals MODEL_ID True (text_field (?rows ! 1)))
      (\<lambda>v. Inr (astype_float32 demo_externals v)) = Inr (vectors ?ix ! 1)"
    by blast
  have A: "length ?rows = 3 \<and> row_id (?rows ! 1) = 1" using len id1 by (rule conjI)
  have B: "crop (?rows ! 1) = u ''Tomato'' \<and> condition (?rows ! 1) = u ''Leaf Mold'' \<and> \<not> is_healthy (?rows ! 1)"
    using fields(1) fields(2) fields(3) by simp
  from A path B tx bf enc show ?thesis by (simp only: simp_thms)
qed

text \<open>
  C1. In the sentence-transformer path (an index type other than "tfidf", the model the
  loader puts in place), the query is encoded by the model
  "sentence-transformers/all-MiniLM-L6-v2" with \<^verbatim>\<open>normalize_embeddings=True\<close> and cast to
  float32: the encoding \<^verbatim>\<open>build_faiss\<close> applies, with its default model, to every stored
  text. So the embedding of the stored text of row \<open>i\<close> is the vector at position \<open>i\<close> of
  the index, for any rows and batch size, and for the rows and the index of the script's
  main part.
\<close>

theorem query_embedding_same_as_index:
  assumes "index_type s \<noteq> u ''tfidf''" and "model s = load_embedding_model (index_type s) True"
  shows "query_embedding E s q
           = bind_err (st_encode E MODEL_ID True q) (\<lambda>v. Inr (astype_float32 E v))
       \<and> MODEL_ID = u ''sentence-transformers/all-MiniLM-L6-v2''
       \<and> (\<forall>rows bs ix i. build_faiss E rows MODEL_ID bs = Inr ix \<and> i < length rows \<longrightarrow>
            query_embedding E s (text_field (rows ! i)) = Inr (vectors ix ! i))
       \<and> (\<forall>ix i. snd (index_main E fs) = Inr ix \<and> i < length (fst (index_main E fs)) \<longrightarrow>
            query_embedding E s (text_field (fst (index_main E fs) ! i)) = Inr (vectors ix ! i))"
proof -
  from assms have q: "query_embedding E s t
      = bind_err (st_encode E MODEL_ID True t) (\<lambda>v. Inr (astype_float32 E v))" for t
    by (simp add: query_embedding_def load_embedding_model_def)
  have rows: "query_embedding E s (text_field (rows ! i)) = Inr (vectors ix ! i)"
    if "build_faiss E rows MODEL_ID bs = Inr ix" and "i < length rows" for rows bs ix i
    using build_faiss_vectors [OF that(1)] that(2) by (simp add: q)
  have main: "query_embedding E s (text_field (fst (index_main E fs) ! i)) = Inr (vectors ix ! i)"
    if "snd (index_main E fs) = Inr ix" and "i < length (fst (index_main E fs))" for ix i
    using that rows [of "build_docs E fs" 256 ix i] by (simp add: index_main_def)
  from q rows main show ?thesis by (auto simp: MODEL_ID_def)
qed

theorem query_embedding_same_as_index_witness:
  "index_type (demo_service [[0, 1], [0, 1], [0, 1]]) \<noteq> u ''tfidf''
 \<and> model (demo_service [[0, 1], [0, 1], [0, 1]])
     = load_embedding_model (index_type (demo_service [[0, 1], [0, 1], [0, 1]])) True
 \<and> snd (index_main demo_externals demo_corpus) = Inr \<lparr> vectors = [[0, 1], [0, 1], [0, 1]] \<rparr>
 \<and> query_embedding demo_externals (demo_service [[0, 1], [0, 1], [0, 1]])
       (text_field (fst (index_main demo_externals demo_corpus) ! 1))
     = Inr ([[0, 1], [0, 1], [0, 1]] ! 1)"
proof -
  let ?s = "demo_service [[0, 1], [0, 1], [0, 1]]"
  let ?ix = "\<lparr> vectors = [[0, 1], [0, 1], [0, 1 :: real]] \<rparr>"
  have a: "index_type ?s \<noteq> u ''tfidf''" by (simp add: demo_service_def)
  have b: "model ?s = load_embedding_model (index_type ?s) True"
    by (simp add: demo_service_def load_embedding_model_def)
  note T = query_embedding_same_as_index [OF a b, of demo_externals _ demo_corpus]
  have bf: "snd (index_main demo_externals demo_corpus) = Inr ?ix"
    by (simp add: demo_index_main)
  have one: "1 < length (fst (index_main demo_externals demo_corpus))"
    by (simp add: demo_index_main demo_docs)
  from T bf one have "query_embedding demo_externals ?s
       (text_field (fst (index_main demo_externals demo_corpus) ! 1)) = Inr (vectors ?ix ! 1)"
    by blast
  then have q: "query_embedding demo_externals ?s
       (text_field (fst (index_main demo_externals demo_corpus) ! 1)) = Inr ([[0, 1], [0, 1], [0, 1]] ! 1)"
    by (simp only: faiss_index.simps)
  from a b bf q show ?thesis by (simp only: simp_thms)
qed

end
